theory Spec2Isabelle
  imports Main
begin

section \<open>JavaScript strings\<close>

text \<open>
  A JavaScript string is a sequence of code units.  The texts that the program handles
  (type tags, names, the raw input, messages) are modelled as a \<^typ>\<open>string\<close>, one
  \<^typ>\<open>char\<close> per code unit, which covers the code units \<open>0x00\<close> to \<open>0xFF\<close>
  (ASCII and Latin-1); \<open>length\<close> is JavaScript's \<open>.length\<close>.  The strings inside the
  values that \<open>JSON.parse\<close> builds can hold any code unit (an escape \<open>\u0100\<close> in an
  ASCII text), so a string value carries its code units as numbers.
\<close>

definition startsWith :: "string \<Rightarrow> string \<Rightarrow> bool" where
  "startsWith s p = (take (length p) s = p)"

definition endsWith :: "string \<Rightarrow> string \<Rightarrow> bool" where
  "endsWith s p = (length p \<le> length s \<and> drop (length s - length p) s = p)"

text \<open>\<open>s.slice(0, n)\<close> for a non-negative \<open>n\<close>.\<close>

definition slice_to :: "string \<Rightarrow> nat \<Rightarrow> string" where
  "slice_to s n = take n s"

text \<open>\<open>s.slice(-n)\<close>: the start index is \<open>max (length - n) 0\<close>.\<close>

definition slice_last :: "string \<Rightarrow> nat \<Rightarrow> string" where
  "slice_last s n = drop (length s - n) s"

text \<open>
  \<open>toLowerCase\<close> on one code unit below \<open>0x100\<close>: the letters \<open>A\<close> to \<open>Z\<close> and the
  Latin-1 capitals \<open>0xC0\<close> to \<open>0xDE\<close> (without the multiplication sign \<open>0xD7\<close>) move up
  by \<open>0x20\<close>; every other code unit stays.
\<close>

definition lower_char :: "char \<Rightarrow> char" where
  "lower_char c =
     (let n = (of_char c :: nat)
      in if (65 \<le> n \<and> n \<le> 90) \<or> (192 \<le> n \<and> n \<le> 222 \<and> n \<noteq> 215)
         then char_of (n + 32) else c)"

definition toLowerCase :: "string \<Rightarrow> string" where
  "toLowerCase s = map lower_char s"

text \<open>The decimal rendering of a non-negative integer, as a template literal gives it.\<close>

function string_of_nat :: "nat \<Rightarrow> string" where
  "string_of_nat n =
     (if n < 10 then [''0123456789'' ! n]
      else string_of_nat (n div 10) @ [''0123456789'' ! (n mod 10)])"
  by pat_completeness auto
termination
  by (relation "measure id") auto

declare string_of_nat.simps [simp del]

section \<open>lib/format: \<open>truncateAddress\<close>\<close>

definition truncateAddress :: "string \<Rightarrow> string" where
  "truncateAddress address =
     (if length address \<le> 13 then address
      else slice_to address 6 @ ''...'' @ slice_last address 4)"

section \<open>JavaScript values and \<open>JSON.parse\<close>\<close>

text \<open>
  The values that reach the argument list.  \<open>JNum\<close> carries the number's literal (the
  JavaScript value is the double nearest to it); \<open>JString\<close> is a string, as the list of
  its code units (numbers up to \<open>0xFFFF\<close>); \<open>JObject\<close> lists the own properties, keys
  as code units too, in the order they were defined (no property below depends on that
  order).  \<open>JInherited k\<close> is the value of the built-in property
  \<open>Object.prototype[k]\<close>: a function object, or the prototype object itself for
  \<open>__proto__\<close>.  It is neither a string nor nullish.
\<close>

datatype jsval =
    JNull
  | JBool bool
  | JNum string
  | JString "nat list"
  | JArr "jsval list"
  | JObject "(nat list \<times> jsval) list"
  | JInherited string

text \<open>
  \<open>JStr s\<close> is the string value with the code units of the text \<open>s\<close>, and \<open>JObj\<close> the
  object whose keys are given as texts.
\<close>

abbreviation JStr :: "string \<Rightarrow> jsval" where
  "JStr s \<equiv> JString (map of_char s)"


text \<open>
  A thrown value: an \<open>Error\<close> instance (also \<open>TypeError\<close>, \<open>SyntaxError\<close>) with its
  message, or anything else.
\<close>

datatype thrown = ErrorObj string | NonError

definition is_ws :: "char \<Rightarrow> bool" where
  "is_ws c = (c = CHR 0x20 \<or> c = CHR 0x09 \<or> c = CHR 0x0A \<or> c = CHR 0x0D)"

definition skip_ws :: "string \<Rightarrow> string" where
  "skip_ws cs = dropWhile is_ws cs"

definition is_digit :: "char \<Rightarrow> bool" where
  "is_digit c = (c \<in> set ''0123456789'')"

text \<open>Number tokens: \<open>-? (0 | [1-9][0-9]*) (. [0-9]+)? ([eE] [+-]? [0-9]+)?\<close>.\<close>

definition scan_int :: "string \<Rightarrow> (string \<times> string) option" where
  "scan_int cs =
     (case cs of
        [] \<Rightarrow> None
      | c # r \<Rightarrow>
          if c = CHR ''0'' then Some ([c], r)
          else if is_digit c then Some (c # takeWhile is_digit r, dropWhile is_digit r)
          else None)"

definition scan_frac :: "string \<Rightarrow> (string \<times> string) option" where
  "scan_frac cs =
     (case cs of
        [] \<Rightarrow> Some ([], cs)
      | c # r \<Rightarrow>
          if c = CHR ''.'' then
            (if takeWhile is_digit r = [] then None
             else Some (c # takeWhile is_digit r, dropWhile is_digit r))
          else Some ([], cs))"

definition scan_exp :: "string \<Rightarrow> (string \<times> string) option" where
  "scan_exp cs =
     (case cs of
        [] \<Rightarrow> Some ([], cs)
      | c # r \<Rightarrow>
          if c = CHR ''e'' \<or> c = CHR ''E'' then
            (let sign = (case r of [] \<Rightarrow> [] | s # _ \<Rightarrow> if s = CHR ''+'' \<or> s = CHR ''-'' then [s] else []);
                 r' = drop (length sign) r
             in if takeWhile is_digit r' = [] then None
                else Some (c # sign @ takeWhile is_digit r', dropWhile is_digit r'))
          else Some ([], cs))"

definition scan_number :: "string \<Rightarrow> (string \<times> string) option" where
  "scan_number cs =
     (let minus = (case cs of [] \<Rightarrow> [] | c # _ \<Rightarrow> if c = CHR ''-'' then [c] else [])
      in case scan_int (drop (length minus) cs) of
           None \<Rightarrow> None
         | Some (i, r1) \<Rightarrow>
             (case scan_frac r1 of
                None \<Rightarrow> None
              | Some (f, r2) \<Rightarrow>
                  (case scan_exp r2 of
                     None \<Rightarrow> None
                   | Some (e, r3) \<Rightarrow> Some (minus @ i @ f @ e, r3))))"

text \<open>String tokens.  The single-character escapes of JSON, each with the character it denotes:\<close>

definition unescape :: "char \<Rightarrow> char option" where
  "unescape e =
     (if e = CHR 0x22 then Some (CHR 0x22)
      else if e = CHR 0x5C then Some (CHR 0x5C)
      else if e = CHR ''/'' then Some (CHR ''/'')
      else if e = CHR ''b'' then Some (CHR 0x08)
      else if e = CHR ''f'' then Some (CHR 0x0C)
      else if e = CHR ''n'' then Some (CHR 0x0A)
      else if e = CHR ''r'' then Some (CHR 0x0D)
      else if e = CHR ''t'' then Some (CHR 0x09)
      else None)"

definition hex_digit :: "char \<Rightarrow> nat option" where
  "hex_digit c =
     (let n = (of_char c :: nat)
      in if 48 \<le> n \<and> n \<le> 57 then Some (n - 48)
         else if 65 \<le> n \<and> n \<le> 70 then Some (n - 55)
         else if 97 \<le> n \<and> n \<le> 102 then Some (n - 87)
         else None)"

definition hex4 :: "char \<Rightarrow> char \<Rightarrow> char \<Rightarrow> char \<Rightarrow> nat option" where
  "hex4 a b c d =
     (case (hex_digit a, hex_digit b, hex_digit c, hex_digit d) of
        (Some w, Some x, Some y, Some z) \<Rightarrow> Some (((w * 16 + x) * 16 + y) * 16 + z)
      | _ \<Rightarrow> None)"

text \<open>
  \<open>scan_string\<close> reads a string token after its opening quote and returns the code
  units of the decoded content and the text after the closing quote.  A raw control
  character, a bad escape or a missing closing quote is a syntax error.  A \<open>\u\<close> escape
  gives the code unit that its four hexadecimal digits name, whatever it is.
\<close>

fun scan_string :: "string \<Rightarrow> (nat list \<times> string) option" where
  "scan_string [] = None"
| "scan_string (c # cs) =
     (if c = CHR 0x22 then Some ([], cs)
      else if c = CHR 0x5C then
        (case cs of
           [] \<Rightarrow> None
         | e # cs' \<Rightarrow>
             if e = CHR ''u'' then
               (case cs' of
                  h1 # h2 # h3 # h4 # r \<Rightarrow>
                    (case hex4 h1 h2 h3 h4 of
                       None \<Rightarrow> None
                     | Some n \<Rightarrow>
                         (case scan_string r of
                            None \<Rightarrow> None
                          | Some (s, r') \<Rightarrow> Some (n # s, r')))
                | _ \<Rightarrow> None)
             else
               (case unescape e of
                  None \<Rightarrow> None
                | Some ch \<Rightarrow>
                    (case scan_string cs' of
                       None \<Rightarrow> None
                     | Some (s, r') \<Rightarrow> Some (of_char ch # s, r'))))
      else if (of_char c :: nat) < 32 then None
      else
        (case scan_string cs of
           None \<Rightarrow> None
         | Some (s, r') \<Rightarrow> Some (of_char c # s, r')))"

text \<open>
  Defining a property on an object: an existing key keeps its place and takes the new
  value (the last duplicate of a JSON object wins), a new key goes to the end.
\<close>

fun set_property ::
  "nat list \<Rightarrow> jsval \<Rightarrow> (nat list \<times> jsval) list \<Rightarrow> (nat list \<times> jsval) list" where
  "set_property k v [] = [(k, v)]"
| "set_property k v ((k', v') # kvs) =
     (if k' = k then (k, v) # kvs else (k', v') # set_property k v kvs)"

definition make_object :: "(nat list \<times> jsval) list \<Rightarrow> jsval" where
  "make_object members = JObject (foldl (\<lambda>kvs (k, v). set_property k v kvs) [] members)"

text \<open>
  The recursive-descent parser of JSON values.  The first argument bounds the depth of
  the recursion; \<open>json_parse\<close> starts it with as much as an input of that length can
  need, since every second call at least consumes a character (lemma \<open>json_parse_fuel\<close>
  below).
\<close>

fun parse_value :: "nat \<Rightarrow> string \<Rightarrow> (jsval \<times> string) option"
  and parse_elements :: "nat \<Rightarrow> string \<Rightarrow> (jsval list \<times> string) option"
  and parse_members :: "nat \<Rightarrow> string \<Rightarrow> ((nat list \<times> jsval) list \<times> string) option"
where
  "parse_value 0 cs = None"
| "parse_value (Suc n) cs =
     (case skip_ws cs of
        [] \<Rightarrow> None
      | c # r \<Rightarrow>
          if c = CHR ''{'' then
            (case skip_ws r of
               [] \<Rightarrow> None
             | d # r' \<Rightarrow>
                 if d = CHR ''}'' then Some (JObject [], r')
                 else (case parse_members n r of
                         None \<Rightarrow> None
                       | Some (kvs, r'') \<Rightarrow> Some (make_object kvs, r'')))
          else if c = CHR ''['' then
            (case skip_ws r of
               [] \<Rightarrow> None
             | d # r' \<Rightarrow>
                 if d = CHR '']'' then Some (JArr [], r')
                 else (case parse_elements n r of
                         None \<Rightarrow> None
                       | Some (vs, r'') \<Rightarrow> Some (JArr vs, r'')))
          else if c = CHR 0x22 then
            (case scan_string r of
               None \<Rightarrow> None
             | Some (s, r') \<Rightarrow> Some (JString s, r'))
          else if startsWith (c # r) ''true'' then Some (JBool True, drop 4 (c # r))
          else if startsWith (c # r) ''false'' then Some (JBool False, drop 5 (c # r))
          else if startsWith (c # r) ''null'' then Some (JNull, drop 4 (c # r))
          else
            (case scan_number (c # r) of
               None \<Rightarrow> None
             | Some (lit, r') \<Rightarrow> Some (JNum lit, r')))"
| "parse_elements 0 cs = None"
| "parse_elements (Suc n) cs =
     (case parse_value n cs of
        None \<Rightarrow> None
      | Some (v, r) \<Rightarrow>
          (case skip_ws r of
             [] \<Rightarrow> None
           | d # r' \<Rightarrow>
               if d = CHR '','' then
                 (case parse_elements n r' of
                    None \<Rightarrow> None
                  | Some (vs, r'') \<Rightarrow> Some (v # vs, r''))
               else if d = CHR '']'' then Some ([v], r')
               else None))"
| "parse_members 0 cs = None"
| "parse_members (Suc n) cs =
     (case skip_ws cs of
        [] \<Rightarrow> None
      | q # r \<Rightarrow>
          if q = CHR 0x22 then
            (case scan_string r of
               None \<Rightarrow> None
             | Some (k, r1) \<Rightarrow>
                 (case skip_ws r1 of
                    [] \<Rightarrow> None
                  | colon # r2 \<Rightarrow>
                      if colon = CHR '':'' then
                        (case parse_value n r2 of
                           None \<Rightarrow> None
                         | Some (v, r3) \<Rightarrow>
                             (case skip_ws r3 of
                                [] \<Rightarrow> None
                              | d # r4 \<Rightarrow>
                                  if d = CHR '','' then
                                    (case parse_members n r4 of
                                       None \<Rightarrow> None
                                     | Some (kvs, r5) \<Rightarrow> Some ((k, v) # kvs, r5))
                                  else if d = CHR ''}'' then Some ([(k, v)], r4)
                                  else None))
                      else None))
          else None)"

text \<open>
  \<open>JSON.parse(text)\<close>: \<open>Some\<close> the value, or \<open>None\<close> where it throws a
  \<open>SyntaxError\<close>.
\<close>

definition json_parse :: "string \<Rightarrow> jsval option" where
  "json_parse text =
     (case parse_value (2 * length text + 2) text of
        None \<Rightarrow> None
      | Some (v, r) \<Rightarrow> if skip_ws r = [] then Some v else None)"

section \<open>Parameter marshalling (function-form, deploy-modal, deploy page)\<close>

text \<open>\<open>ParamInfo\<close> of api/types; \<open>ConstructorInput\<close> has the same three fields.\<close>

datatype ParamInfo =
  ParamInfo (name: string) (param_type: string) (components: "ParamInfo list option")

text \<open>
  The raw input objects \<open>params\<close> and \<open>constructorArgs\<close> are created as \<open>{}\<close> and
  extended by \<open>{ ...prev, [name]: v }\<close>: plain objects whose own properties are strings
  (the map below) and whose prototype is \<open>Object.prototype\<close>.  Reading \<open>obj[k]\<close>
  gives the own property if there is one, else the property inherited from
  \<open>Object.prototype\<close> if \<open>k\<close> names one, else \<open>undefined\<close>.
\<close>

datatype rawval = Text string | Inherited string

definition Object_prototype_keys :: "string list" where
  "Object_prototype_keys =
     [''constructor'', ''hasOwnProperty'', ''isPrototypeOf'', ''propertyIsEnumerable'',
      ''toLocaleString'', ''toString'', ''valueOf'', ''__proto__'',
      ''__defineGetter__'', ''__defineSetter__'', ''__lookupGetter__'', ''__lookupSetter__'']"

definition get_property :: "(string \<rightharpoonup> string) \<Rightarrow> string \<Rightarrow> rawval option" where
  "get_property obj k =
     (case obj k of
        Some v \<Rightarrow> Some (Text v)
      | None \<Rightarrow> if k \<in> set Object_prototype_keys then Some (Inherited k) else None)"

text \<open>\<open>obj[k] ?? ""\<close>: only \<open>undefined\<close> (and \<open>null\<close>) give way to the default.\<close>

definition get_raw :: "(string \<rightharpoonup> string) \<Rightarrow> string \<Rightarrow> rawval" where
  "get_raw obj k = (case get_property obj k of None \<Rightarrow> Text [] | Some v \<Rightarrow> v)"

text \<open>The raw value as an element of the argument list.\<close>

fun to_js :: "rawval \<Rightarrow> jsval" where
  "to_js (Text s) = JStr s"
| "to_js (Inherited k) = JInherited k"

text \<open>
  The message of the \<open>TypeError\<close> for calling \<open>toLowerCase\<close> on a value that has
  no such method, in the wording of V8.
\<close>

definition not_a_function :: string where
  "not_a_function = ''rawValue.toLowerCase is not a function''"

text \<open>
  The body of the \<open>map\<close> callback in \<open>parseParams\<close> and \<open>parseConstructorArgs\<close>
  (the three copies have the same text), after \<open>rawValue\<close> has been read.  An
  inherited built-in has no \<open>toLowerCase\<close>, and \<open>JSON.parse\<close> first converts it to
  text (\<open>function ...() { [native code] }\<close>, or \<open>[object Object]\<close> for the prototype
  object), which is not JSON: it throws and the \<open>catch\<close> returns \<open>rawValue\<close>.
\<close>

definition parseParam :: "ParamInfo \<Rightarrow> rawval \<Rightarrow> thrown + jsval" where
  "parseParam input rawValue =
     (if rawValue = Text [] then
        (if param_type input = ''bool'' then Inr (JBool False)
         else if startsWith (param_type input) ''uint'' \<or> startsWith (param_type input) ''int''
           then Inr (JStr ''0'')
         else Inr (JStr []))
      else if param_type input = ''bool'' then
        (case rawValue of
           Text s \<Rightarrow> Inr (JBool (toLowerCase s = ''true''))
         | Inherited k \<Rightarrow> Inl (ErrorObj not_a_function))
      else if endsWith (param_type input) ''[]'' \<or> param_type input = ''tuple''
              \<or> components input \<noteq> None then
        (case rawValue of
           Text s \<Rightarrow> (case json_parse s of Some v \<Rightarrow> Inr v | None \<Rightarrow> Inr (JStr s))
         | Inherited k \<Rightarrow> Inr (JInherited k))
      else Inr (to_js rawValue))"

text \<open>\<open>Array.prototype.map\<close> with a callback that may throw: the first throw ends it.\<close>

fun map_throwing :: "('a \<Rightarrow> thrown + 'b) \<Rightarrow> 'a list \<Rightarrow> thrown + 'b list" where
  "map_throwing f [] = Inr []"
| "map_throwing f (x # xs) =
     (case f x of
        Inl e \<Rightarrow> Inl e
      | Inr y \<Rightarrow> (case map_throwing f xs of Inl e \<Rightarrow> Inl e | Inr ys \<Rightarrow> Inr (y # ys)))"

definition parseParams :: "ParamInfo list \<Rightarrow> (string \<rightharpoonup> string) \<Rightarrow> thrown + jsval list" where
  "parseParams inputs params =
     map_throwing (\<lambda>input. parseParam input (get_raw params (name input))) inputs"

record ConstructorInfo =
  inputs :: "ParamInfo list"
  state_mutability :: string

record FunctionInfo = ConstructorInfo +
  func_name :: string
  signature :: string
  outputs :: "ParamInfo list"

record ArtifactDetails =
  details_name :: string
  constructor :: "ConstructorInfo option"

definition parseConstructorArgs ::
  "ArtifactDetails option \<Rightarrow> (string \<rightharpoonup> string) \<Rightarrow> thrown + jsval list" where
  "parseConstructorArgs artifactDetails constructorArgs =
     (case artifactDetails of
        None \<Rightarrow> Inr []
      | Some details \<Rightarrow>
          (case constructor details of
             None \<Rightarrow> Inr []
           | Some ctor \<Rightarrow>
               map_throwing
                 (\<lambda>input. parseParam input (get_raw constructorArgs (name input)))
                 (inputs ctor)))"

text \<open>
  The reading of the specification's coercion of a boolean parameter, for comparison:
  the text is trimmed before it is compared.  \<open>trim\<close> removes JavaScript's white space
  and line terminators (those below \<open>0x100\<close>) from both ends.
\<close>

definition is_js_space :: "char \<Rightarrow> bool" where
  "is_js_space c =
     (c \<in> {CHR 0x09, CHR 0x0A, CHR 0x0B, CHR 0x0C, CHR 0x0D, CHR 0x20, CHR 0xA0})"

definition trim :: "string \<Rightarrow> string" where
  "trim s = rev (dropWhile is_js_space (rev (dropWhile is_js_space s)))"

definition spec_coerce_bool :: "string \<Rightarrow> jsval" where
  "spec_coerce_bool rawText = JBool (toLowerCase (trim rawText) = ''true'')"

section \<open>api/types and api/client\<close>

record CallRequest =
  function_name :: string
  request_params :: "jsval list"

text \<open>An optional field is an option: \<open>None\<close> is \<open>undefined\<close>, the field left out.\<close>

record SendRequest = CallRequest +
  wallet_name :: string
  request_value :: "string option"

record DeployRequest =
  artifact_name :: string
  network_name :: string
  deploy_wallet_name :: string
  constructor_args :: "jsval list"
  deploy_value :: "string option"

record CallResponse =
  response_result :: jsval

record SendResponse =
  tx_hash :: string
  history_id :: nat

record DeployResponse =
  deploy_tx_hash :: string
  contract_address :: "string option"
  deployment_id :: "nat option"

text \<open>A history entry is kept as the JSON value received.\<close>

type_synonym CallHistory = jsval

record Deployment =
  ident :: nat
  address :: string

text \<open>
  What \<open>fetch\<close> resolves to: the \<open>ok\<close> flag and the status of the response, and what
  reading its body gives, as text (\<open>response.text()\<close>) and as typed JSON
  (\<open>response.json()\<close>).  Each reading may itself reject.
\<close>

record 'r response =
  ok :: bool
  status :: nat
  text_result :: "thrown + string"
  json_result :: "thrown + 'r"

text \<open>
  \<open>fetchJson\<close> and \<open>postJson\<close>, from the point where \<open>fetch\<close> has settled: the
  argument is the rejection or the response.
\<close>

definition fetchJson :: "thrown + 'r response \<Rightarrow> thrown + 'r" where
  "fetchJson fetched =
     (case fetched of
        Inl e \<Rightarrow> Inl e
      | Inr response \<Rightarrow>
          if \<not> ok response then
            (case text_result response of
               Inl e \<Rightarrow> Inl e
             | Inr text \<Rightarrow>
                 Inl (ErrorObj (if text \<noteq> [] then text
                                else ''API error: '' @ string_of_nat (status response))))
          else json_result response)"

definition postJson :: "thrown + 'r response \<Rightarrow> thrown + 'r" where
  "postJson fetched =
     (case fetched of
        Inl e \<Rightarrow> Inl e
      | Inr response \<Rightarrow>
          if \<not> ok response then
            (case text_result response of
               Inl e \<Rightarrow> Inl e
             | Inr text \<Rightarrow>
                 Inl (ErrorObj (if text \<noteq> [] then text
                                else ''API error: '' @ string_of_nat (status response))))
          else json_result response)"

text \<open>The requests that leave the client, and the backend with the network as a parameter.\<close>

datatype request =
    PostCall nat CallRequest
  | PostSend nat SendRequest
  | PostDeploy DeployRequest
  | GetHistory nat

record env =
  call_reply :: "nat \<Rightarrow> CallRequest \<Rightarrow> thrown + CallResponse response"
  send_reply :: "nat \<Rightarrow> SendRequest \<Rightarrow> thrown + SendResponse response"
  deploy_reply :: "DeployRequest \<Rightarrow> thrown + DeployResponse response"
  history_reply :: "nat \<Rightarrow> thrown + CallHistory list response"
  latency :: "request \<Rightarrow> nat"

text \<open>
  The part of the state that belongs to the runtime: the time in milliseconds, the
  requests made so far, and the pending timers with the time each is due.
\<close>

datatype timer_action = CallLoadHistory nat

record runtime =
  clock :: nat
  requests :: "request list"
  timers :: "(nat \<times> timer_action) list"

text \<open>An awaited request is recorded, and time passes until it settles.\<close>

definition await_fetch :: "env \<Rightarrow> request \<Rightarrow> 'a runtime_scheme \<Rightarrow> 'a runtime_scheme" where
  "await_fetch env req st =
     st\<lparr>requests := requests st @ [req], clock := clock st + latency env req\<rparr>"

definition setTimeout :: "timer_action \<Rightarrow> nat \<Rightarrow> 'a runtime_scheme \<Rightarrow> 'a runtime_scheme" where
  "setTimeout callback delay st = st\<lparr>timers := timers st @ [(clock st + delay, callback)]\<rparr>"

text \<open>A computation that changes the state and returns or throws.\<close>

type_synonym ('s, 'a) js = "'s \<Rightarrow> (thrown + 'a) \<times> 's"

definition api_deployments_call ::
  "env \<Rightarrow> nat \<Rightarrow> CallRequest \<Rightarrow> ('a runtime_scheme, CallResponse) js" where
  "api_deployments_call env d request st =
     (postJson (call_reply env d request), await_fetch env (PostCall d request) st)"

definition api_deployments_send ::
  "env \<Rightarrow> nat \<Rightarrow> SendRequest \<Rightarrow> ('a runtime_scheme, SendResponse) js" where
  "api_deployments_send env d request st =
     (postJson (send_reply env d request), await_fetch env (PostSend d request) st)"

definition api_deployments_getHistory ::
  "env \<Rightarrow> nat \<Rightarrow> ('a runtime_scheme, CallHistory list) js" where
  "api_deployments_getHistory env d st =
     (fetchJson (history_reply env d), await_fetch env (GetHistory d) st)"

definition api_deploy :: "env \<Rightarrow> DeployRequest \<Rightarrow> ('a runtime_scheme, DeployResponse) js" where
  "api_deploy env request st =
     (postJson (deploy_reply env request), await_fetch env (PostDeploy request) st)"

text \<open>\<open>try { body } catch (err) { handler }\<close> and \<open>try { body } finally { cleanup }\<close>.\<close>

definition try_catch :: "('s, 'a) js \<Rightarrow> (thrown \<Rightarrow> ('s, 'a) js) \<Rightarrow> ('s, 'a) js" where
  "try_catch body handler st =
     (case body st of
        (Inl err, st') \<Rightarrow> handler err st'
      | (Inr a, st') \<Rightarrow> (Inr a, st'))"

definition try_finally :: "('s, 'a) js \<Rightarrow> ('s \<Rightarrow> 's) \<Rightarrow> ('s, 'a) js" where
  "try_finally body cleanup st = (case body st of (r, st') \<Rightarrow> (r, cleanup st'))"

section \<open>components/function-form and pages/deployment-details\<close>

record outcome =
  success :: bool
  txHash :: "string option"
  error :: "string option"

record CallResult = outcome +
  data :: "jsval option"

text \<open>
  The state: the wallet and value fields that every form has, then the state of
  \<open>FunctionForm\<close> (\<open>params\<close>, \<open>loading\<close>, \<open>result\<close>) and of the page
  \<open>DeploymentDetail\<close> (\<open>deployment\<close>, \<open>history\<close>).  \<open>value_text\<close> is the state variable
  \<open>value\<close>.
\<close>

record wallet_form = runtime +
  selectedWallet :: string
  value_text :: string

record app_state = wallet_form +
  params :: "string \<rightharpoonup> string"
  loading :: bool
  result :: "CallResult option"
  deployment :: "Deployment option"
  history :: "CallHistory list"

record FunctionFormProps =
  deploymentId :: nat
  func :: FunctionInfo
  isWrite :: bool
  onTxSent :: "(string \<Rightarrow> (app_state, unit) js) option"

text \<open>\<open>s || undefined\<close> for a string \<open>s\<close>: only the empty string is falsy.\<close>

definition or_undefined :: "string \<Rightarrow> string option" where
  "or_undefined s = (if s \<noteq> [] then Some s else None)"

text \<open>The \<open>try\<close> block of \<open>handleSubmit\<close>.\<close>

definition handleSubmit_try :: "env \<Rightarrow> FunctionFormProps \<Rightarrow> (app_state, unit) js" where
  "handleSubmit_try env props st =
     (case parseParams (inputs (func props)) (params st) of
        Inl err \<Rightarrow> (Inl err, st)
      | Inr parsedParams \<Rightarrow>
          if isWrite props then
            (if selectedWallet st = [] then (Inl (ErrorObj ''Please select a wallet''), st)
             else
               (case api_deployments_send env (deploymentId props)
                       \<lparr>function_name = func_name (func props),
                        request_params = parsedParams,
                        wallet_name = selectedWallet st,
                        request_value = or_undefined (value_text st)\<rparr> st of
                  (Inl err, st') \<Rightarrow> (Inl err, st')
                | (Inr response, st') \<Rightarrow>
                    (let st'' = st'\<lparr>result :=
                           Some \<lparr>success = True, txHash = Some (tx_hash response),
                                 error = None, data = None\<rparr>\<rparr>
                     in case onTxSent props of
                          None \<Rightarrow> (Inr (), st'')
                        | Some callback \<Rightarrow> callback (tx_hash response) st'')))
          else
            (case api_deployments_call env (deploymentId props)
                    \<lparr>function_name = func_name (func props),
                     request_params = parsedParams\<rparr> st of
               (Inl err, st') \<Rightarrow> (Inl err, st')
             | (Inr response, st') \<Rightarrow>
                 (Inr (), st'\<lparr>result :=
                    Some \<lparr>success = True, txHash = None, error = None,
                          data = Some (response_result response)\<rparr>\<rparr>)))"

definition handleSubmit :: "env \<Rightarrow> FunctionFormProps \<Rightarrow> (app_state, unit) js" where
  "handleSubmit env props st =
     try_finally
       (try_catch
          (handleSubmit_try env props)
          (\<lambda>err st'. (Inr (), st'\<lparr>result :=
             Some \<lparr>success = False, txHash = None,
                   error = Some (case err of ErrorObj message \<Rightarrow> message
                                           | NonError \<Rightarrow> ''Unknown error''),
                   data = None\<rparr>\<rparr>)))
       (\<lambda>st'. st'\<lparr>loading := False\<rparr>)
       (st\<lparr>loading := True, result := None\<rparr>)"

text \<open>\<open>loadHistory\<close>, \<open>handleTxSent\<close> and the props that \<open>InteractTab\<close> passes down.\<close>

definition loadHistory :: "env \<Rightarrow> nat \<Rightarrow> (app_state, unit) js" where
  "loadHistory env d =
     try_catch
       (\<lambda>st. case api_deployments_getHistory env d st of
                (Inl err, st') \<Rightarrow> (Inl err, st')
              | (Inr historyData, st') \<Rightarrow> (Inr (), st'\<lparr>history := historyData\<rparr>))
       (\<lambda>err st. (Inr (), st))"

definition handleTxSent :: "(app_state, unit) js" where
  "handleTxSent st =
     (case deployment st of
        None \<Rightarrow> (Inr (), st)
      | Some d \<Rightarrow> (Inr (), setTimeout (CallLoadHistory (ident d)) 2000 st))"

definition InteractTab_props :: "Deployment \<Rightarrow> FunctionInfo \<Rightarrow> bool \<Rightarrow> FunctionFormProps" where
  "InteractTab_props d f w =
     \<lparr>deploymentId = ident d, func = f, isWrite = w, onTxSent = Some (\<lambda>txHash. handleTxSent)\<rparr>"

text \<open>
  The runtime runs a timer's callback only when the timer is due: \<open>run_timer env i\<close>
  takes the \<open>i\<close>-th pending timer off the list and runs it, if the clock has reached its
  time.
\<close>

definition run_timer :: "env \<Rightarrow> nat \<Rightarrow> app_state \<Rightarrow> app_state option" where
  "run_timer env i st =
     (if i < length (timers st) \<and> fst (timers st ! i) \<le> clock st then
        (case snd (timers st ! i) of
           CallLoadHistory d \<Rightarrow>
             Some (snd (loadHistory env d
                     (st\<lparr>timers := take i (timers st) @ drop (Suc i) (timers st)\<rparr>))))
      else None)"

section \<open>components/deploy-modal and pages/deploy\<close>

record deploy_form = wallet_form +
  artifactDetails :: "ArtifactDetails option"
  selectedNetwork :: string
  constructorArgs :: "string \<rightharpoonup> string"
  deploying :: bool

text \<open>
  The modal; \<open>onSuccess_calls\<close> lists the arguments \<open>onSuccess\<close> was called with (the
  callback of the parent is taken to return normally).
\<close>

record DeployModal_state = deploy_form +
  deployError :: "string option"
  onSuccess_calls :: "(string \<times> string \<times> string) list"

record DeployResult = outcome +
  deployed_address :: "string option"
  deployed_id :: "nat option"

record DeployPage_state = deploy_form +
  selectedArtifact :: string
  deployResult :: "DeployResult option"

definition handleDeploy_modal :: "env \<Rightarrow> string \<Rightarrow> (DeployModal_state, unit) js" where
  "handleDeploy_modal env artifactName st =
     try_finally
       (try_catch
          (\<lambda>st. case parseConstructorArgs (artifactDetails st) (constructorArgs st) of
                   Inl err \<Rightarrow> (Inl err, st)
                 | Inr args \<Rightarrow>
                     (case api_deploy env
                             \<lparr>artifact_name = artifactName,
                              network_name = selectedNetwork st,
                              deploy_wallet_name = selectedWallet st,
                              constructor_args = args,
                              deploy_value = or_undefined (value_text st)\<rparr> st of
                        (Inl err, st') \<Rightarrow> (Inl err, st')
                      | (Inr response, st') \<Rightarrow>
                          (case contract_address response of
                             None \<Rightarrow> (Inr (), st')
                           | Some a \<Rightarrow>
                               if a \<noteq> [] then
                                 (Inr (), st'\<lparr>onSuccess_calls := onSuccess_calls st' @
                                    [(a, deploy_tx_hash response, selectedNetwork st')]\<rparr>)
                               else (Inr (), st'))))
          (\<lambda>err st'. (Inr (), st'\<lparr>deployError :=
             Some (case err of ErrorObj message \<Rightarrow> message
                             | NonError \<Rightarrow> ''Deployment failed'')\<rparr>)))
       (\<lambda>st'. st'\<lparr>deploying := False\<rparr>)
       (st\<lparr>deploying := True, deployError := None\<rparr>)"

definition handleDeploy_page :: "env \<Rightarrow> (DeployPage_state, unit) js" where
  "handleDeploy_page env st =
     try_finally
       (try_catch
          (\<lambda>st. case parseConstructorArgs (artifactDetails st) (constructorArgs st) of
                   Inl err \<Rightarrow> (Inl err, st)
                 | Inr args \<Rightarrow>
                     (case api_deploy env
                             \<lparr>artifact_name = selectedArtifact st,
                              network_name = selectedNetwork st,
                              deploy_wallet_name = selectedWallet st,
                              constructor_args = args,
                              deploy_value = or_undefined (value_text st)\<rparr> st of
                        (Inl err, st') \<Rightarrow> (Inl err, st')
                      | (Inr response, st') \<Rightarrow>
                          (Inr (), st'\<lparr>deployResult :=
                             Some \<lparr>success = True, txHash = Some (deploy_tx_hash response),
                                   error = None,
                                   deployed_address = contract_address response,
                                   deployed_id = deployment_id response\<rparr>\<rparr>)))
          (\<lambda>err st'. (Inr (), st'\<lparr>deployResult :=
             Some \<lparr>success = False, txHash = None,
                   error = Some (case err of ErrorObj message \<Rightarrow> message
                                           | NonError \<Rightarrow> ''Deployment failed''),
                   deployed_address = None, deployed_id = None\<rparr>\<rparr>)))
       (\<lambda>st'. st'\<lparr>deploying := False\<rparr>)
       (st\<lparr>deploying := True, deployResult := None\<rparr>)"

section \<open>Sample inputs\<close>

text \<open>
  A deployment, two functions of its contract, a form as it is mounted (\<open>params\<close> is
  \<open>{}\<close>, nothing selected), the same form filled in, and backends: one that answers
  every request, one that answers \<open>500\<close> with an empty body, and one that cannot be
  reached.
\<close>

definition sample_deployment :: Deployment where
  "sample_deployment = \<lparr>ident = 7, address = ''0x5FbDB2315678afecb367f032d93F642f64180aa3''\<rparr>"

definition transfer_func :: FunctionInfo where
  "transfer_func =
     \<lparr>inputs = [ParamInfo ''to'' ''address'' None, ParamInfo ''amount'' ''uint256'' None],
      state_mutability = ''nonpayable'',
      func_name = ''transfer'',
      signature = ''transfer(address,uint256)'',
      outputs = [ParamInfo [] ''bool'' None]\<rparr>"

definition setFlag_func :: FunctionInfo where
  "setFlag_func =
     \<lparr>inputs = [ParamInfo ''valueOf'' ''bool'' None],
      state_mutability = ''nonpayable'',
      func_name = ''setFlag'',
      signature = ''setFlag(bool)'',
      outputs = []\<rparr>"

definition mounted_form :: app_state where
  "mounted_form =
     \<lparr>clock = 1000, requests = [], timers = [],
      selectedWallet = [], value_text = [],
      params = map_of [], loading = False, result = None,
      deployment = Some sample_deployment, history = []\<rparr>"

definition filled_form :: app_state where
  "filled_form =
     \<lparr>clock = 1000, requests = [], timers = [],
      selectedWallet = ''deployer'', value_text = [],
      params = map_of [(''to'', ''0xabc''), (''amount'', ''5'')], loading = False, result = None,
      deployment = Some sample_deployment, history = []\<rparr>"

definition backend_up :: env where
  "backend_up =
     \<lparr>call_reply = (\<lambda>d request. Inr \<lparr>ok = True, status = 200, text_result = Inr ''{}'',
                        json_result = Inr \<lparr>response_result = JStr ''42''\<rparr>\<rparr>),
      send_reply = (\<lambda>d request. Inr \<lparr>ok = True, status = 200, text_result = Inr ''{}'',
                        json_result = Inr \<lparr>tx_hash = ''0xfeed'', history_id = 1\<rparr>\<rparr>),
      deploy_reply = (\<lambda>request. Inr \<lparr>ok = True, status = 200, text_result = Inr ''{}'',
                        json_result = Inr \<lparr>deploy_tx_hash = ''0xbeef'',
                          contract_address = Some ''0xc0de'', deployment_id = Some 8\<rparr>\<rparr>),
      history_reply = (\<lambda>d. Inr \<lparr>ok = True, status = 200, text_result = Inr ''[]'',
                        json_result = Inr [JStr ''transfer'']\<rparr>),
      latency = (\<lambda>request. 150)\<rparr>"

definition backend_500 :: env where
  "backend_500 =
     \<lparr>call_reply = (\<lambda>d request. Inr \<lparr>ok = False, status = 500, text_result = Inr [],
                        json_result = Inl (ErrorObj ''Unexpected end of JSON input'')\<rparr>),
      send_reply = (\<lambda>d request. Inr \<lparr>ok = False, status = 500, text_result = Inr [],
                        json_result = Inl (ErrorObj ''Unexpected end of JSON input'')\<rparr>),
      deploy_reply = (\<lambda>request. Inr \<lparr>ok = False, status = 500, text_result = Inr [],
                        json_result = Inl (ErrorObj ''Unexpected end of JSON input'')\<rparr>),
      history_reply = (\<lambda>d. Inr \<lparr>ok = False, status = 500, text_result = Inr [],
                        json_result = Inl (ErrorObj ''Unexpected end of JSON input'')\<rparr>),
      latency = (\<lambda>request. 150)\<rparr>"

definition backend_down :: env where
  "backend_down =
     \<lparr>call_reply = (\<lambda>d request. Inl (ErrorObj ''Failed to fetch'')),
      send_reply = (\<lambda>d request. Inl (ErrorObj ''Failed to fetch'')),
      deploy_reply = (\<lambda>request. Inl (ErrorObj ''Failed to fetch'')),
      history_reply = (\<lambda>d. Inl (ErrorObj ''Failed to fetch'')),
      latency = (\<lambda>request. 30)\<rparr>"

text \<open>A backend whose requests are rejected with a value that is not an \<open>Error\<close>.\<close>

definition backend_aborted :: env where
  "backend_aborted =
     \<lparr>call_reply = (\<lambda>d request. Inl NonError),
      send_reply = (\<lambda>d request. Inl NonError),
      deploy_reply = (\<lambda>request. Inl NonError),
      history_reply = (\<lambda>d. Inl NonError),
      latency = (\<lambda>request. 30)\<rparr>"

text \<open>
  The deploy modal with a payable constructor and no value entered, and the deploy page
  with a value of one ether.
\<close>

definition token_artifact :: ArtifactDetails where
  "token_artifact =
     \<lparr>details_name = ''Token'',
      constructor = Some \<lparr>inputs = [ParamInfo ''supply'' ''uint256'' None],
                           state_mutability = ''payable''\<rparr>\<rparr>"

definition open_modal :: DeployModal_state where
  "open_modal =
     \<lparr>clock = 0, requests = [], timers = [],
      selectedWallet = ''deployer'', value_text = [],
      artifactDetails = Some token_artifact, selectedNetwork = ''anvil'',
      constructorArgs = map_of [(''supply'', ''1000'')], deploying = False,
      deployError = None, onSuccess_calls = []\<rparr>"

definition open_page :: DeployPage_state where
  "open_page =
     \<lparr>clock = 0, requests = [], timers = [],
      selectedWallet = ''deployer'', value_text = ''1000000000000000000'',
      artifactDetails = Some token_artifact, selectedNetwork = ''anvil'',
      constructorArgs = map_of [(''supply'', ''1000'')], deploying = False,
      selectedArtifact = ''Token'', deployResult = None\<rparr>"

section \<open>The parser has fuel enough\<close>

text \<open>
  Every scanner and every parser that succeeds consumes input, so the depth of the
  recursion is bounded by the length of the text.
\<close>

lemma skip_ws_Cons_shorter: "skip_ws cs = c # r \<Longrightarrow> length r < length cs"
proof -
  assume a: "skip_ws cs = c # r"
  have "length (skip_ws cs) \<le> length cs"
    unfolding skip_ws_def by (rule length_dropWhile_le)
  with a show ?thesis by simp
qed

lemma scan_string_shorter: "scan_string cs = Some (s, r) \<Longrightarrow> length r < length cs"
proof (induction "length cs" arbitrary: cs s r rule: less_induct)
  case less
  have ih: "scan_string ys = Some (s', r') \<Longrightarrow> length ys < length cs \<Longrightarrow> length r' < length ys"
    for ys s' r'
    using less.hyps [of ys s' r'] by simp
  show ?case
  proof (cases cs)
    case Nil
    with less.prems show ?thesis by simp
  next
    case (Cons c cs')
    with less.prems show ?thesis
      by (fastforce split: if_splits list.splits option.splits dest: ih)
  qed
qed

lemma scan_int_shorter: "scan_int cs = Some (i, r) \<Longrightarrow> length r < length cs"
  using length_dropWhile_le [of is_digit "tl cs"]
  by (auto simp: scan_int_def split: list.splits if_splits)

lemma scan_frac_le: "scan_frac cs = Some (f, r) \<Longrightarrow> length r \<le> length cs"
  using length_dropWhile_le [of is_digit "tl cs"]
  by (auto simp: scan_frac_def split: list.splits if_splits)

lemma scan_exp_le: "scan_exp cs = Some (e, r) \<Longrightarrow> length r \<le> length cs"
proof -
  assume a: "scan_exp cs = Some (e, r)"
  have "length (dropWhile is_digit xs) \<le> length xs" for xs :: string
    by (rule length_dropWhile_le)
  from a this [of "drop 1 (tl cs)"] this [of "tl cs"] show ?thesis
    by (auto simp: scan_exp_def Let_def split: list.splits if_splits)
qed

lemma scan_number_shorter: "scan_number cs = Some (lit, r) \<Longrightarrow> length r < length cs"
proof -
  assume a: "scan_number cs = Some (lit, r)"
  then obtain m i r1 f r2 e where
    i: "scan_int (drop m cs) = Some (i, r1)" and f: "scan_frac r1 = Some (f, r2)"
    and e: "scan_exp r2 = Some (e, r)"
    by (auto simp: scan_number_def Let_def split: option.splits)
  from scan_int_shorter [OF i] scan_frac_le [OF f] scan_exp_le [OF e]
  show ?thesis by simp
qed


lemma skip_ws_Cons_le: "skip_ws cs = c # r \<Longrightarrow> Suc (length r) \<le> length cs"
  using skip_ws_Cons_shorter [of cs c r] by simp

lemma parse_value_Suc_shorter:
  assumes ih_e: "\<And>cs vs r. parse_elements n cs = Some (vs, r) \<Longrightarrow> length r < length cs"
    and ih_m: "\<And>cs kvs r. parse_members n cs = Some (kvs, r) \<Longrightarrow> length r < length cs"
    and v: "parse_value (Suc n) cs = Some (v, r)"
  shows "length r < length cs"
proof (cases "skip_ws cs")
  case Nil
  with v show ?thesis by simp
next
  case (Cons c r0)
  note le = skip_ws_Cons_le [OF Cons]
  consider (obj) "c = CHR ''{''" | (arr) "c \<noteq> CHR ''{''" "c = CHR ''[''"
    | (str) "c \<noteq> CHR ''{''" "c \<noteq> CHR ''[''" "c = CHR 0x22"
    | (other) "c \<noteq> CHR ''{''" "c \<noteq> CHR ''[''" "c \<noteq> CHR 0x22"
    by blast
  then show ?thesis
  proof cases
    case obj
    with v Cons le show ?thesis
      by (auto split: list.splits if_splits option.splits
          dest!: skip_ws_Cons_le ih_m)
  next
    case arr
    with v Cons le show ?thesis
      by (auto split: list.splits if_splits option.splits
          dest!: skip_ws_Cons_le ih_e)
  next
    case str
    with v Cons le show ?thesis
      by (auto split: option.splits dest!: scan_string_shorter)
  next
    case other
    with v Cons le show ?thesis
      by (auto simp: startsWith_def split: if_splits option.splits dest!: scan_number_shorter)
  qed
qed


lemma parse_elements_Suc_shorter:
  assumes ih_v: "\<And>cs v r. parse_value n cs = Some (v, r) \<Longrightarrow> length r < length cs"
    and ih_e: "\<And>cs vs r. parse_elements n cs = Some (vs, r) \<Longrightarrow> length r < length cs"
    and e: "parse_elements (Suc n) cs = Some (vs, r)"
  shows "length r < length cs"
  using e
  by (auto split: option.splits list.splits if_splits
      dest!: ih_v ih_e skip_ws_Cons_le)

lemma parse_members_Suc_shorter:
  assumes ih_v: "\<And>cs v r. parse_value n cs = Some (v, r) \<Longrightarrow> length r < length cs"
    and ih_m: "\<And>cs kvs r. parse_members n cs = Some (kvs, r) \<Longrightarrow> length r < length cs"
    and m: "parse_members (Suc n) cs = Some (kvs, r)"
  shows "length r < length cs"
  using m
  by (auto split: option.splits list.splits if_splits
      dest!: ih_v ih_m skip_ws_Cons_le scan_string_shorter)

lemma parse_shorter:
  "(\<forall>cs v r. parse_value n cs = Some (v, r) \<longrightarrow> length r < length cs) \<and>
   (\<forall>cs vs r. parse_elements n cs = Some (vs, r) \<longrightarrow> length r < length cs) \<and>
   (\<forall>cs kvs r. parse_members n cs = Some (kvs, r) \<longrightarrow> length r < length cs)"
proof (induction n)
  case 0
  show ?case by simp
next
  case (Suc n)
  show ?case
  proof (intro conjI allI impI)
    fix cs v r assume "parse_value (Suc n) cs = Some (v, r)"
    then show "length r < length cs"
      using Suc.IH parse_value_Suc_shorter [of n cs v r] by blast
  next
    fix cs vs r assume "parse_elements (Suc n) cs = Some (vs, r)"
    then show "length r < length cs"
      using Suc.IH parse_elements_Suc_shorter [of n cs vs r] by blast
  next
    fix cs kvs r assume "parse_members (Suc n) cs = Some (kvs, r)"
    then show "length r < length cs"
      using Suc.IH parse_members_Suc_shorter [of n cs kvs r] by blast
  qed
qed


lemma parse_value_shorter: "parse_value n cs = Some (v, r) \<Longrightarrow> length r < length cs"
  using parse_shorter [of n] by blast

lemma parse_value_Suc_stable:
  assumes ih_e: "\<And>cs. 2 * length cs + 1 < n \<Longrightarrow> 2 * length cs + 1 < m \<Longrightarrow>
                  parse_elements n cs = parse_elements m cs"
    and ih_m: "\<And>cs. 2 * length cs < n \<Longrightarrow> 2 * length cs < m \<Longrightarrow>
                  parse_members n cs = parse_members m cs"
    and n: "2 * length cs < Suc n" and m: "2 * length cs < Suc m"
  shows "parse_value (Suc n) cs = parse_value (Suc m) cs"
proof (cases "skip_ws cs")
  case Nil
  then show ?thesis by simp
next
  case (Cons c r0)
  from skip_ws_Cons_le [OF Cons] n m have "2 * length r0 + 1 < n" and "2 * length r0 + 1 < m"
    by simp_all
  then have "parse_elements n r0 = parse_elements m r0" and "parse_members n r0 = parse_members m r0"
    using ih_e [of r0] ih_m [of r0] by simp_all
  with Cons show ?thesis by (simp split: list.splits)
qed

lemma parse_elements_Suc_stable:
  assumes ih_v: "\<And>cs. 2 * length cs < n \<Longrightarrow> 2 * length cs < m \<Longrightarrow>
                  parse_value n cs = parse_value m cs"
    and ih_e: "\<And>cs. 2 * length cs + 1 < n \<Longrightarrow> 2 * length cs + 1 < m \<Longrightarrow>
                  parse_elements n cs = parse_elements m cs"
    and n: "2 * length cs + 1 < Suc n" and m: "2 * length cs + 1 < Suc m"
  shows "parse_elements (Suc n) cs = parse_elements (Suc m) cs"
proof -
  from n m have v: "parse_value n cs = parse_value m cs"
    using ih_v [of cs] by simp
  show ?thesis
  proof (cases "parse_value m cs")
    case None
    with v show ?thesis by simp
  next
    case (Some a)
    obtain x r where a: "a = (x, r)" by (cases a)
    from Some a have r: "length r < length cs"
      using parse_value_shorter by blast
    show ?thesis
    proof (cases "skip_ws r")
      case Nil
      with v Some a show ?thesis by simp
    next
      case (Cons d r')
      from skip_ws_Cons_le [OF Cons] r n m
      have "2 * length r' + 1 < n" and "2 * length r' + 1 < m"
        by simp_all
      then have "parse_elements n r' = parse_elements m r'"
        using ih_e [of r'] by simp
      with v Some a Cons show ?thesis by simp
    qed
  qed
qed

lemma parse_members_Suc_stable:
  assumes ih_v: "\<And>cs. 2 * length cs < n \<Longrightarrow> 2 * length cs < m \<Longrightarrow>
                  parse_value n cs = parse_value m cs"
    and ih_m: "\<And>cs. 2 * length cs < n \<Longrightarrow> 2 * length cs < m \<Longrightarrow>
                  parse_members n cs = parse_members m cs"
    and n: "2 * length cs < Suc n" and m: "2 * length cs < Suc m"
  shows "parse_members (Suc n) cs = parse_members (Suc m) cs"
proof (cases "skip_ws cs")
  case Nil
  then show ?thesis by simp
next
  case c: (Cons q r)
  show ?thesis
  proof (cases "scan_string r")
    case None
    with c show ?thesis by simp
  next
    case (Some a)
    obtain k r1 where a: "a = (k, r1)" by (cases a)
    from Some a have r1: "length r1 < length r"
      using scan_string_shorter by blast
    show ?thesis
    proof (cases "skip_ws r1")
      case Nil
      with c Some a show ?thesis by simp
    next
      case c1: (Cons colon r2)
      from skip_ws_Cons_le [OF c] skip_ws_Cons_le [OF c1] r1 n m
      have r2: "2 * length r2 < n" "2 * length r2 < m"
        by simp_all
      then have v: "parse_value n r2 = parse_value m r2"
        using ih_v [of r2] by simp
      show ?thesis
      proof (cases "parse_value m r2")
        case None
        with c Some a c1 v show ?thesis by simp
      next
        case s2: (Some b)
        obtain x r3 where b: "b = (x, r3)" by (cases b)
        from s2 b have r3: "length r3 < length r2"
          using parse_value_shorter by blast
        show ?thesis
        proof (cases "skip_ws r3")
          case Nil
          with c Some a c1 v s2 b show ?thesis by simp
        next
          case c3: (Cons d r4)
          from skip_ws_Cons_le [OF c3] r3 r2 have "2 * length r4 < n" and "2 * length r4 < m"
            by simp_all
          then have "parse_members n r4 = parse_members m r4"
            using ih_m [of r4] by simp
          with c Some a c1 v s2 b c3 show ?thesis by simp
        qed
      qed
    qed
  qed
qed

text \<open>
  Beyond twice the length of the input, more fuel does not change what the parser returns.
\<close>

lemma parse_fuel_stable:
  "(\<forall>cs m. 2 * length cs < n \<and> 2 * length cs < m \<longrightarrow> parse_value n cs = parse_value m cs) \<and>
   (\<forall>cs m. 2 * length cs + 1 < n \<and> 2 * length cs + 1 < m
       \<longrightarrow> parse_elements n cs = parse_elements m cs) \<and>
   (\<forall>cs m. 2 * length cs < n \<and> 2 * length cs < m \<longrightarrow> parse_members n cs = parse_members m cs)"
proof (induction n)
  case 0
  show ?case by simp
next
  case (Suc n)
  show ?case
  proof (intro conjI allI impI)
    fix cs :: string and m
    assume a: "2 * length cs < Suc n \<and> 2 * length cs < m"
    then obtain m' where m: "m = Suc m'" by (cases m) auto
    have "parse_value (Suc n) cs = parse_value (Suc m') cs"
    proof (rule parse_value_Suc_stable)
      fix ds :: string
      assume "2 * length ds + 1 < n" and "2 * length ds + 1 < m'"
      then show "parse_elements n ds = parse_elements m' ds"
        using Suc.IH by blast
    next
      fix ds :: string
      assume "2 * length ds < n" and "2 * length ds < m'"
      then show "parse_members n ds = parse_members m' ds"
        using Suc.IH by blast
    next
      show "2 * length cs < Suc n"
        using a by simp
      show "2 * length cs < Suc m'"
        using a m by simp
    qed
    with m show "parse_value (Suc n) cs = parse_value m cs" by simp
  next
    fix cs :: string and m
    assume a: "2 * length cs + 1 < Suc n \<and> 2 * length cs + 1 < m"
    then obtain m' where m: "m = Suc m'" by (cases m) auto
    have "parse_elements (Suc n) cs = parse_elements (Suc m') cs"
    proof (rule parse_elements_Suc_stable)
      fix ds :: string
      assume "2 * length ds < n" and "2 * length ds < m'"
      then show "parse_value n ds = parse_value m' ds"
        using Suc.IH by blast
    next
      fix ds :: string
      assume "2 * length ds + 1 < n" and "2 * length ds + 1 < m'"
      then show "parse_elements n ds = parse_elements m' ds"
        using Suc.IH by blast
    next
      show "2 * length cs + 1 < Suc n"
        using a by simp
      show "2 * length cs + 1 < Suc m'"
        using a m by simp
    qed
    with m show "parse_elements (Suc n) cs = parse_elements m cs" by simp
  next
    fix cs :: string and m
    assume a: "2 * length cs < Suc n \<and> 2 * length cs < m"
    then obtain m' where m: "m = Suc m'" by (cases m) auto
    have "parse_members (Suc n) cs = parse_members (Suc m') cs"
    proof (rule parse_members_Suc_stable)
      fix ds :: string
      assume "2 * length ds < n" and "2 * length ds < m'"
      then show "parse_value n ds = parse_value m' ds"
        using Suc.IH by blast
    next
      fix ds :: string
      assume "2 * length ds < n" and "2 * length ds < m'"
      then show "parse_members n ds = parse_members m' ds"
        using Suc.IH by blast
    next
      show "2 * length cs < Suc n"
        using a by simp
      show "2 * length cs < Suc m'"
        using a m by simp
    qed
    with m show "parse_members (Suc n) cs = parse_members m cs" by simp
  qed
qed

text \<open>\<open>json_parse\<close> gives the parser enough fuel: with any more, the result is the same.\<close>

lemma json_parse_fuel:
  assumes "2 * length text + 2 \<le> n"
  shows "json_parse text =
           (case parse_value n text of
              None \<Rightarrow> None
            | Some (v, r) \<Rightarrow> if skip_ws r = [] then Some v else None)"
proof -
  have "parse_value (2 * length text + 2) text = parse_value n text"
    using parse_fuel_stable [of "2 * length text + 2"] assms by simp
  then show ?thesis
    by (simp add: json_parse_def)
qed

section \<open>Properties of \<open>truncateAddress\<close>\<close>

text \<open>
  Claim C9.  For every string, \<open>truncateAddress\<close> returns the string unchanged when its
  length is at most 13, and otherwise the first 6 characters, then \<open>...\<close>, then the last 4
  characters: a result of length exactly 13.
\<close>

theorem truncateAddress_short_or_13:
  "(length a \<le> 13 \<longrightarrow> truncateAddress a = a) \<and>
   (13 < length a \<longrightarrow>
      truncateAddress a = take 6 a @ ''...'' @ drop (length a - 4) a \<and>
      length (truncateAddress a) = 13)"
  by (auto simp: truncateAddress_def slice_to_def slice_last_def)

theorem truncateAddress_short_or_13_witness:
  "truncateAddress ''0xabc'' = ''0xabc'' \<and>
   truncateAddress ''0x1234567890abcdef'' = ''0x1234...cdef'' \<and>
   length (truncateAddress ''0x1234567890abcdef'') = 13"
  using truncateAddress_short_or_13 [of "''0xabc''"]
    truncateAddress_short_or_13 [of "''0x1234567890abcdef''"]
  by simp

section \<open>Properties of the coercion of one parameter\<close>

lemma startsWith_uint_int:
  "startsWith s ''uint'' \<or> startsWith s ''int'' \<Longrightarrow> s \<noteq> ''bool'' \<and> s \<noteq> ''tuple''"
  by (auto simp: startsWith_def)

lemma of_char_lower_char:
  "(of_char (lower_char c) :: nat) =
     (if (65 \<le> (of_char c :: nat) \<and> (of_char c :: nat) \<le> 90) \<or>
         (192 \<le> (of_char c :: nat) \<and> (of_char c :: nat) \<le> 222 \<and> (of_char c :: nat) \<noteq> 215)
      then of_char c + 32 else of_char c)"
  by (auto simp: lower_char_def Let_def)

lemma char_eq_iff_nat: "c = d \<longleftrightarrow> (of_char c :: nat) = of_char d"
  by simp

text \<open>Only a small letter and its capital are lowered to that small letter.\<close>

lemma lower_char_ascii:
  assumes "(of_char d :: nat) = n" and "97 \<le> n" and "n \<le> 122" and "(of_char u :: nat) = n - 32"
  shows "lower_char c = d \<longleftrightarrow> c = d \<or> c = u"
proof -
  have "lower_char c = d \<longleftrightarrow> (of_char (lower_char c) :: nat) = n"
    using assms(1) by (simp add: char_eq_iff_nat [of "lower_char c"])
  also have "\<dots> \<longleftrightarrow> (of_char c :: nat) = n \<or> (of_char c :: nat) = n - 32"
    unfolding of_char_lower_char using assms(2,3) by auto
  also have "\<dots> \<longleftrightarrow> c = d \<or> c = u"
    using assms(1,4) by (simp add: char_eq_iff_nat [of c])
  finally show ?thesis .
qed

lemma lower_char_true:
  "lower_char c = CHR ''t'' \<longleftrightarrow> c = CHR ''t'' \<or> c = CHR ''T''"
  "lower_char c = CHR ''r'' \<longleftrightarrow> c = CHR ''r'' \<or> c = CHR ''R''"
  "lower_char c = CHR ''u'' \<longleftrightarrow> c = CHR ''u'' \<or> c = CHR ''U''"
  "lower_char c = CHR ''e'' \<longleftrightarrow> c = CHR ''e'' \<or> c = CHR ''E''"
  using lower_char_ascii [of "CHR ''t''" 116 "CHR ''T''" c]
        lower_char_ascii [of "CHR ''r''" 114 "CHR ''R''" c]
        lower_char_ascii [of "CHR ''u''" 117 "CHR ''U''" c]
        lower_char_ascii [of "CHR ''e''" 101 "CHR ''E''" c]
  by simp_all

lemma toLowerCase_true_iff:
  "toLowerCase s = ''true'' \<longleftrightarrow>
     (\<exists>a b c d. s = [a, b, c, d] \<and> (a = CHR ''t'' \<or> a = CHR ''T'') \<and>
        (b = CHR ''r'' \<or> b = CHR ''R'') \<and> (c = CHR ''u'' \<or> c = CHR ''U'') \<and>
        (d = CHR ''e'' \<or> d = CHR ''E''))"
proof -
  have "toLowerCase s = ''true'' \<longleftrightarrow>
        (\<exists>a b c d. s = [a, b, c, d] \<and> lower_char a = CHR ''t'' \<and> lower_char b = CHR ''r'' \<and>
           lower_char c = CHR ''u'' \<and> lower_char d = CHR ''e'')"
    unfolding toLowerCase_def by (auto simp: map_eq_Cons_conv)
  then show ?thesis
    by (simp only: lower_char_true)
qed

lemma toLowerCase_TRUE: "toLowerCase ''TRUE'' = ''true''"
  by (simp add: toLowerCase_true_iff)





lemma json_parse_30_digits:
  "json_parse ''123456789012345678901234567890'' = Some (JNum ''123456789012345678901234567890'')"
  by code_simp

text \<open>An escape above \<open>0x00FF\<close> is parsed to its code unit: \<open>["\u0100"]\<close> is an array.\<close>

lemma json_parse_wide_escape:
  \<open>json_parse (''["'' @ [CHR 0x5C] @ ''u0100"]'') = Some (JArr [JString [256]])\<close>
  by code_simp




text \<open>
  Claim C2, as the code has it.  For a parameter of type \<open>bool\<close> and a non-empty raw
  text, the result is \<open>true\<close> exactly when the text itself, not trimmed, is \<open>true\<close> in
  some mix of upper and lower case, and \<open>false\<close> for every other text.
\<close>

theorem parseParam_bool_untrimmed:
  assumes "param_type p = ''bool''" and "raw \<noteq> []"
  shows "parseParam p (Text raw) = Inr (JBool (toLowerCase raw = ''true'')) \<and>
         (toLowerCase raw = ''true'' \<longleftrightarrow>
            (\<exists>a b c d. raw = [a, b, c, d] \<and> (a = CHR ''t'' \<or> a = CHR ''T'') \<and>
              (b = CHR ''r'' \<or> b = CHR ''R'') \<and> (c = CHR ''u'' \<or> c = CHR ''U'') \<and>
              (d = CHR ''e'' \<or> d = CHR ''E'')))"
proof
  show "parseParam p (Text raw) = Inr (JBool (toLowerCase raw = ''true''))"
    using assms by (simp add: parseParam_def)
  show "toLowerCase raw = ''true'' \<longleftrightarrow>
            (\<exists>a b c d. raw = [a, b, c, d] \<and> (a = CHR ''t'' \<or> a = CHR ''T'') \<and>
              (b = CHR ''r'' \<or> b = CHR ''R'') \<and> (c = CHR ''u'' \<or> c = CHR ''U'') \<and>
              (d = CHR ''e'' \<or> d = CHR ''E''))"
    by (rule toLowerCase_true_iff)
qed

theorem parseParam_bool_untrimmed_witness:
  "parseParam (ParamInfo ''flag'' ''bool'' None) (Text ''TRUE'') = Inr (JBool True)"
  using parseParam_bool_untrimmed [of "ParamInfo ''flag'' ''bool'' None" "''TRUE''"]
    toLowerCase_TRUE
  by simp

text \<open>
  Claim C2 as stated fails on a text with a leading space: trimmed it is \<open>true\<close>, so the
  claim gives \<open>true\<close>, and the code gives \<open>false\<close>.
\<close>

theorem parseParam_bool_leading_space:
  "parseParam (ParamInfo ''flag'' ''bool'' None) (Text '' true'') = Inr (JBool False) \<and>
   spec_coerce_bool '' true'' = JBool True"
proof
  have "toLowerCase '' true'' \<noteq> ''true''"
    by (simp add: toLowerCase_def)
  then show "parseParam (ParamInfo ''flag'' ''bool'' None) (Text '' true'') = Inr (JBool False)"
    by (simp add: parseParam_def)
  have "trim '' true'' = ''true''"
    by (simp add: trim_def is_js_space_def)
  then show "spec_coerce_bool '' true'' = JBool True"
    by (simp add: spec_coerce_bool_def toLowerCase_true_iff)
qed




text \<open>
  The empty text gives \<open>false\<close> for type \<open>bool\<close>, the text \<open>0\<close> for a type that starts
  with \<open>uint\<close> or \<open>int\<close>, and the empty text otherwise, whatever else the parameter is
  (nothing is parsed).  A non-empty text for a numeric parameter whose type does not end
  in \<open>[]\<close> and that has no \<open>components\<close> property is returned as it is.
\<close>

lemma parseParam_empty_text:
  "parseParam p (Text []) =
     Inr (if param_type p = ''bool'' then JBool False
          else if startsWith (param_type p) ''uint'' \<or> startsWith (param_type p) ''int''
            then JStr ''0''
          else JStr [])"
  by (simp add: parseParam_def)

lemma parseParam_numeric_without_components:
  assumes "raw \<noteq> []"
    and "startsWith (param_type p) ''uint'' \<or> startsWith (param_type p) ''int''"
    and "\<not> endsWith (param_type p) ''[]''" and "components p = None"
  shows "parseParam p (Text raw) = Inr (JStr raw)"
  using assms startsWith_uint_int [of "param_type p"]
  by (auto simp: parseParam_def)

text \<open>
  Claim C5 at an input where the code departs from it.  A \<open>uint256\<close> parameter whose
  \<open>components\<close> is the empty list is numeric and not an array, and has no fields; but an
  empty list is truthy, so the test \<open>input.components\<close> sends its text through
  \<open>JSON.parse\<close>.  The 30 digits come back as a number (a double, so rounded), not as
  the text.
\<close>

theorem parseParam_numeric_with_empty_components:
  "parseParam (ParamInfo ''amount'' ''uint256'' (Some []))
     (Text ''123456789012345678901234567890'')
     = Inr (JNum ''123456789012345678901234567890'') \<and>
   parseParam (ParamInfo ''amount'' ''uint256'' (Some []))
     (Text ''123456789012345678901234567890'')
     \<noteq> Inr (JStr ''123456789012345678901234567890'')"
  using json_parse_30_digits
  by (simp add: parseParam_def endsWith_def)

section \<open>Properties of the marshalling of a parameter list\<close>

lemma map_throwing_Inr:
  "\<forall>x \<in> set xs. \<exists>y. f x = Inr y \<Longrightarrow> map_throwing f xs = Inr (map (\<lambda>x. projr (f x)) xs)"
  by (induction xs) auto

lemma map_throwing_length: "map_throwing f xs = Inr ys \<Longrightarrow> length ys = length xs"
  by (induction xs arbitrary: ys) (auto split: sum.splits)

lemma get_raw_own:
  "k \<in> dom m \<or> k \<notin> set Object_prototype_keys \<Longrightarrow>
   get_raw m k = Text (case m k of None \<Rightarrow> [] | Some v \<Rightarrow> v)"
  by (auto simp: get_raw_def get_property_def split: option.splits)

lemma parseParam_Text_returns: "\<exists>v. parseParam p (Text raw) = Inr v"
  by (auto simp: parseParam_def split: option.splits)

text \<open>
  Where no parameter without an entry has a name that \<open>Object.prototype\<close> defines, the
  marshalling returns one value per parameter, in the order of the parameters, each
  coerced from its entry or from the empty text.
\<close>

lemma parseParams_own_names:
  assumes "\<forall>i \<in> set ins. name i \<in> dom m \<or> name i \<notin> set Object_prototype_keys"
  shows "parseParams ins m =
           Inr (map (\<lambda>i. projr (parseParam i (Text (case m (name i) of None \<Rightarrow> [] | Some v \<Rightarrow> v)))) ins)"
proof -
  have "\<forall>i \<in> set ins. get_raw m (name i) = Text (case m (name i) of None \<Rightarrow> [] | Some v \<Rightarrow> v)"
    using assms get_raw_own by blast
  moreover have "\<forall>i \<in> set ins. \<exists>y. parseParam i (get_raw m (name i)) = Inr y"
    using calculation parseParam_Text_returns by simp
  ultimately show ?thesis
    unfolding parseParams_def
    by (simp add: map_throwing_Inr cong: map_cong)
qed

lemma parseParams_length: "parseParams ins m = Inr vs \<Longrightarrow> length vs = length ins"
  unfolding parseParams_def by (rule map_throwing_length)

text \<open>
  Claim C6 at an input where the code departs from it.  A parameter named \<open>toString\<close>
  with no entry in the map is not treated as empty text: the lookup finds the inherited
  \<open>Object.prototype.toString\<close>, and that function, not the text \<open>0\<close>, is the output.  For
  a \<open>bool\<close> parameter named \<open>valueOf\<close> the marshalling throws and has no output.
\<close>

theorem parseParams_inherited_name:
  "parseParams [ParamInfo ''toString'' ''uint256'' None] (map_of [])
     = Inr [JInherited ''toString''] \<and>
   parseParams [ParamInfo ''toString'' ''uint256'' None] (map_of []) \<noteq> Inr [JStr ''0''] \<and>
   parseParams [ParamInfo ''valueOf'' ''bool'' None] (map_of []) = Inl (ErrorObj not_a_function)"
  by (simp add: parseParams_def parseParam_def get_raw_def get_property_def endsWith_def
      startsWith_def Object_prototype_keys_def)

section \<open>Properties of the dispatch in \<open>handleSubmit\<close>\<close>

lemmas handleSubmit_defs =
  handleSubmit_def handleSubmit_try_def try_catch_def try_finally_def
  api_deployments_send_def api_deployments_call_def await_fetch_def

lemmas handleDeploy_defs =
  handleDeploy_modal_def handleDeploy_page_def try_catch_def try_finally_def api_deploy_def
  await_fetch_def

lemmas marshal_defs =
  parseParams_def parseParam_def get_raw_def get_property_def startsWith_def endsWith_def
  Object_prototype_keys_def

lemmas sample_defs =
  sample_deployment_def transfer_func_def setFlag_func_def mounted_form_def filled_form_def
  backend_up_def backend_500_def backend_down_def backend_aborted_def

text \<open>Nothing escapes \<open>handleSubmit\<close>: whatever the \<open>try\<close> block throws is caught.\<close>

lemma handleSubmit_returns: "fst (handleSubmit env props st) = Inr ()"
  by (simp add: handleSubmit_defs split: sum.splits prod.splits option.splits)

text \<open>The state after \<open>handleSubmit\<close>, one lemma for each way through it.\<close>

lemma handleSubmit_parse_throws:
  assumes "parseParams (inputs (func props)) (params st) = Inl err"
  shows "snd (handleSubmit env props st) =
     st\<lparr>loading := False,
        result := Some \<lparr>success = False, txHash = None,
                  error = Some (case err of ErrorObj message \<Rightarrow> message
                                          | NonError \<Rightarrow> ''Unknown error''),
                  data = None\<rparr>\<rparr>"
  using assms by (simp add: handleSubmit_defs)

lemma handleSubmit_no_wallet:
  assumes "parseParams (inputs (func props)) (params st) = Inr ps"
    and "isWrite props" and "selectedWallet st = []"
  shows "snd (handleSubmit env props st) =
     st\<lparr>loading := False,
        result := Some \<lparr>success = False, txHash = None,
                  error = Some ''Please select a wallet'', data = None\<rparr>\<rparr>"
  using assms by (simp add: handleSubmit_defs)

lemma handleSubmit_send_fails:
  assumes "parseParams (inputs (func props)) (params st) = Inr ps"
    and "isWrite props" and "selectedWallet st \<noteq> []"
    and "request = \<lparr>function_name = func_name (func props), request_params = ps,
            wallet_name = selectedWallet st, request_value = or_undefined (value_text st)\<rparr>"
    and "postJson (send_reply env (deploymentId props) request) = Inl err"
  shows "snd (handleSubmit env props st) =
     st\<lparr>requests := requests st @ [PostSend (deploymentId props) request],
        clock := clock st + latency env (PostSend (deploymentId props) request),
        loading := False,
        result := Some \<lparr>success = False, txHash = None,
                  error = Some (case err of ErrorObj message \<Rightarrow> message
                                          | NonError \<Rightarrow> ''Unknown error''),
                  data = None\<rparr>\<rparr>"
  using assms by (simp add: handleSubmit_defs)

lemma handleSubmit_call_fails:
  assumes "parseParams (inputs (func props)) (params st) = Inr ps"
    and "\<not> isWrite props"
    and "request = \<lparr>function_name = func_name (func props), request_params = ps\<rparr>"
    and "postJson (call_reply env (deploymentId props) request) = Inl err"
  shows "snd (handleSubmit env props st) =
     st\<lparr>requests := requests st @ [PostCall (deploymentId props) request],
        clock := clock st + latency env (PostCall (deploymentId props) request),
        loading := False,
        result := Some \<lparr>success = False, txHash = None,
                  error = Some (case err of ErrorObj message \<Rightarrow> message
                                          | NonError \<Rightarrow> ''Unknown error''),
                  data = None\<rparr>\<rparr>"
  using assms by (simp add: handleSubmit_defs)

lemma handleSubmit_call_ok:
  assumes "parseParams (inputs (func props)) (params st) = Inr ps"
    and "\<not> isWrite props"
    and "request = \<lparr>function_name = func_name (func props), request_params = ps\<rparr>"
    and "postJson (call_reply env (deploymentId props) request) = Inr response"
  shows "snd (handleSubmit env props st) =
     st\<lparr>requests := requests st @ [PostCall (deploymentId props) request],
        clock := clock st + latency env (PostCall (deploymentId props) request),
        loading := False,
        result := Some \<lparr>success = True, txHash = None, error = None,
                  data = Some (response_result response)\<rparr>\<rparr>"
  using assms by (simp add: handleSubmit_defs)

lemma handleSubmit_send_ok:
  assumes "parseParams (inputs f) (params st) = Inr ps"
    and "selectedWallet st \<noteq> []"
    and "deployment st = Some d"
    and "request = \<lparr>function_name = func_name f, request_params = ps,
            wallet_name = selectedWallet st, request_value = or_undefined (value_text st)\<rparr>"
    and "postJson (send_reply env (ident d) request) = Inr response"
  shows "snd (handleSubmit env (InteractTab_props d f True) st) =
     st\<lparr>requests := requests st @ [PostSend (ident d) request],
        clock := clock st + latency env (PostSend (ident d) request),
        timers := timers st @
          [(clock st + latency env (PostSend (ident d) request) + 2000, CallLoadHistory (ident d))],
        loading := False,
        result := Some \<lparr>success = True, txHash = Some (tx_hash response), error = None,
                  data = None\<rparr>\<rparr>"
  using assms
  by (simp add: handleSubmit_defs InteractTab_props_def handleTxSent_def setTimeout_def)

text \<open>
  A write without a wallet sends nothing, sets no timer and ends in a failure, whatever
  the parameters are.
\<close>

lemma handleSubmit_write_without_wallet:
  assumes "isWrite props" and "selectedWallet st = []"
  shows "requests (snd (handleSubmit env props st)) = requests st"
    and "timers (snd (handleSubmit env props st)) = timers st"
    and "\<exists>m. result (snd (handleSubmit env props st)) =
            Some \<lparr>success = False, txHash = None, error = Some m, data = None\<rparr>"
  using assms
  by (auto simp add: handleSubmit_defs split: sum.splits)

lemma parseParams_filled_form:
  "parseParams (inputs transfer_func) (params filled_form) = Inr [JStr ''0xabc'', JStr ''5'']"
  by (simp add: transfer_func_def filled_form_def parseParams_def parseParam_def get_raw_def
      get_property_def startsWith_def endsWith_def)

lemma parseParams_mounted_transfer:
  "parseParams (inputs (func (InteractTab_props sample_deployment transfer_func True)))
     (params mounted_form) = Inr [JStr [], JStr ''0'']"
  by (simp add: InteractTab_props_def transfer_func_def mounted_form_def marshal_defs)

text \<open>
  Claim C3, as the code has it.  A write submitted with no wallet selected sends no
  request and ends in a failure, for every function, state and backend; the failure
  carries the missing-wallet message whenever the marshalling of the parameters, which
  runs before the wallet is looked at, returns.
\<close>

theorem write_without_wallet_fails_locally:
  assumes "isWrite props" and "selectedWallet st = []"
  shows "requests (snd (handleSubmit env props st)) = requests st \<and>
         (\<exists>m. result (snd (handleSubmit env props st)) =
                Some \<lparr>success = False, txHash = None, error = Some m, data = None\<rparr>) \<and>
         (parseParams (inputs (func props)) (params st) = Inr ps \<longrightarrow>
            result (snd (handleSubmit env props st)) =
              Some \<lparr>success = False, txHash = None, error = Some ''Please select a wallet'',
                    data = None\<rparr>)"
proof (intro conjI impI)
  show "requests (snd (handleSubmit env props st)) = requests st"
    using assms by (rule handleSubmit_write_without_wallet(1))
  show "\<exists>m. result (snd (handleSubmit env props st)) =
                Some \<lparr>success = False, txHash = None, error = Some m, data = None\<rparr>"
    using assms by (rule handleSubmit_write_without_wallet(3))
  assume "parseParams (inputs (func props)) (params st) = Inr ps"
  from handleSubmit_no_wallet [OF this assms, of env]
  show "result (snd (handleSubmit env props st)) =
              Some \<lparr>success = False, txHash = None, error = Some ''Please select a wallet'',
                    data = None\<rparr>"
    by simp
qed

theorem write_without_wallet_fails_locally_witness:
  "requests (snd (handleSubmit backend_up
       (InteractTab_props sample_deployment transfer_func True) mounted_form)) = [] \<and>
   result (snd (handleSubmit backend_up
       (InteractTab_props sample_deployment transfer_func True) mounted_form)) =
     Some \<lparr>success = False, txHash = None, error = Some ''Please select a wallet'', data = None\<rparr>"
proof -
  have w: "isWrite (InteractTab_props sample_deployment transfer_func True)"
    by (simp add: InteractTab_props_def)
  have s: "selectedWallet mounted_form = []"
    by (simp add: mounted_form_def)
  from write_without_wallet_fails_locally [OF w s, of backend_up "[JStr [], JStr ''0'']"]
    parseParams_mounted_transfer
  show ?thesis
    by (simp add: mounted_form_def)
qed

text \<open>
  Claim C3 as stated fails where the marshalling throws.  A write form for a function
  with a \<open>bool\<close> parameter named \<open>valueOf\<close>, submitted as mounted (no entry, no wallet):
  the failure carries the \<open>TypeError\<close>'s message, not the missing-wallet message.  No
  request is made.
\<close>

theorem handleSubmit_no_wallet_inherited_name:
  "result (snd (handleSubmit backend_up
             (InteractTab_props sample_deployment setFlag_func True) mounted_form))
     = Some \<lparr>success = False, txHash = None,
             error = Some ''rawValue.toLowerCase is not a function'', data = None\<rparr> \<and>
   result (snd (handleSubmit backend_up
             (InteractTab_props sample_deployment setFlag_func True) mounted_form))
     \<noteq> Some \<lparr>success = False, txHash = None,
             error = Some ''Please select a wallet'', data = None\<rparr> \<and>
   requests (snd (handleSubmit backend_up
             (InteractTab_props sample_deployment setFlag_func True) mounted_form)) = []"
proof -
  have "parseParams (inputs (func (InteractTab_props sample_deployment setFlag_func True)))
          (params mounted_form) = Inl (ErrorObj not_a_function)"
    by (simp add: InteractTab_props_def setFlag_func_def mounted_form_def marshal_defs)
  from handleSubmit_parse_throws [OF this, of backend_up]
  show ?thesis
    by (simp add: not_a_function_def mounted_form_def)
qed

section \<open>Properties of the history refresh\<close>

lemma handleSubmit_timers:
  assumes "deployment st = Some d"
  shows
    "(w \<and> (\<exists>r. result (snd (handleSubmit env (InteractTab_props d f w) st)) = Some r \<and> success r)
        \<longrightarrow> timers (snd (handleSubmit env (InteractTab_props d f w) st)) =
              timers st @ [(clock (snd (handleSubmit env (InteractTab_props d f w) st)) + 2000,
                            CallLoadHistory (ident d))]) \<and>
     (\<not> (w \<and> (\<exists>r. result (snd (handleSubmit env (InteractTab_props d f w) st)) = Some r \<and> success r))
        \<longrightarrow> timers (snd (handleSubmit env (InteractTab_props d f w) st)) = timers st)"
  using assms
  by (auto simp: handleSubmit_defs InteractTab_props_def handleTxSent_def setTimeout_def
      split: sum.splits)

lemma run_timer_loadHistory:
  assumes "run_timer env i st2 = Some st3" and "timers st2 ! i = (due, CallLoadHistory d')"
  shows "due \<le> clock st2"
    and "requests st3 = requests st2 @ [GetHistory d']"
    and "fetchJson (history_reply env d') = Inr h \<Longrightarrow> history st3 = h"
    and "fetchJson (history_reply env d') = Inl e \<Longrightarrow> history st3 = history st2"
    and "timers st3 = take i (timers st2) @ drop (Suc i) (timers st2)"
  using assms
  by (auto simp: run_timer_def loadHistory_def try_catch_def api_deployments_getHistory_def
      await_fetch_def split: if_splits sum.splits)

text \<open>
  Claim C7.  On the deployment page, a write that ends in success adds exactly one timer,
  due 2000 ms after the time the success was produced, that calls \<open>loadHistory\<close> for the
  page's deployment; a read, or any failure, adds none.  When the runtime runs that timer
  the clock has reached its time, the history of that deployment is requested, and the
  list received replaces \<open>history\<close>.
\<close>

theorem write_success_schedules_one_refresh:
  assumes "deployment st = Some d"
  shows
    "(w \<and> (\<exists>r. result (snd (handleSubmit env (InteractTab_props d f w) st)) = Some r \<and> success r)
        \<longrightarrow> timers (snd (handleSubmit env (InteractTab_props d f w) st)) =
              timers st @ [(clock (snd (handleSubmit env (InteractTab_props d f w) st)) + 2000,
                            CallLoadHistory (ident d))]) \<and>
     (\<not> (w \<and> (\<exists>r. result (snd (handleSubmit env (InteractTab_props d f w) st)) = Some r \<and> success r))
        \<longrightarrow> timers (snd (handleSubmit env (InteractTab_props d f w) st)) = timers st) \<and>
     (run_timer env i st2 = Some st3 \<and>
      timers st2 ! i = (clock (snd (handleSubmit env (InteractTab_props d f w) st)) + 2000,
                        CallLoadHistory (ident d))
        \<longrightarrow> clock (snd (handleSubmit env (InteractTab_props d f w) st)) + 2000 \<le> clock st2 \<and>
            requests st3 = requests st2 @ [GetHistory (ident d)] \<and>
            (fetchJson (history_reply env (ident d)) = Inr h \<longrightarrow> history st3 = h))"
proof (intro conjI impI)
  assume "w \<and> (\<exists>r. result (snd (handleSubmit env (InteractTab_props d f w) st)) = Some r \<and> success r)"
  then show "timers (snd (handleSubmit env (InteractTab_props d f w) st)) =
              timers st @ [(clock (snd (handleSubmit env (InteractTab_props d f w) st)) + 2000,
                            CallLoadHistory (ident d))]"
    using handleSubmit_timers [OF assms, of w env f] by blast
next
  assume "\<not> (w \<and> (\<exists>r. result (snd (handleSubmit env (InteractTab_props d f w) st)) = Some r \<and> success r))"
  then show "timers (snd (handleSubmit env (InteractTab_props d f w) st)) = timers st"
    using handleSubmit_timers [OF assms, of w env f] by blast
next
  assume run: "run_timer env i st2 = Some st3 \<and>
      timers st2 ! i = (clock (snd (handleSubmit env (InteractTab_props d f w) st)) + 2000,
                        CallLoadHistory (ident d))"
  then show "clock (snd (handleSubmit env (InteractTab_props d f w) st)) + 2000 \<le> clock st2"
    using run_timer_loadHistory(1) by blast
  from run show "requests st3 = requests st2 @ [GetHistory (ident d)]"
    using run_timer_loadHistory(2) by blast
  assume "fetchJson (history_reply env (ident d)) = Inr h"
  with run show "history st3 = h"
    using run_timer_loadHistory(3) by blast
qed

lemma submit_transfer:
  "snd (handleSubmit backend_up (InteractTab_props sample_deployment transfer_func True) filled_form)
     = filled_form
        \<lparr>requests := [PostSend 7 \<lparr>function_name = ''transfer'',
                        request_params = [JStr ''0xabc'', JStr ''5''],
                        wallet_name = ''deployer'', request_value = None\<rparr>],
         clock := 1150,
         timers := [(3150, CallLoadHistory 7)],
         loading := False,
         result := Some \<lparr>success = True, txHash = Some ''0xfeed'', error = None, data = None\<rparr>\<rparr>"
  using handleSubmit_send_ok [OF parseParams_filled_form, of sample_deployment _ backend_up
      "\<lparr>tx_hash = ''0xfeed'', history_id = 1\<rparr>"]
  by (simp add: filled_form_def sample_deployment_def backend_up_def postJson_def transfer_func_def
      or_undefined_def)

lemma refresh_after_transfer:
  "run_timer backend_up 0
     (snd (handleSubmit backend_up (InteractTab_props sample_deployment transfer_func True)
             filled_form) \<lparr>clock := 3150\<rparr>)
   = Some (filled_form
        \<lparr>requests := [PostSend 7 \<lparr>function_name = ''transfer'',
                        request_params = [JStr ''0xabc'', JStr ''5''],
                        wallet_name = ''deployer'', request_value = None\<rparr>, GetHistory 7],
         clock := 3300,
         timers := [],
         loading := False,
         result := Some \<lparr>success = True, txHash = Some ''0xfeed'', error = None, data = None\<rparr>,
         history := [JStr ''transfer'']\<rparr>)"
  unfolding submit_transfer
  by (simp add: run_timer_def loadHistory_def try_catch_def api_deployments_getHistory_def
      await_fetch_def fetchJson_def backend_up_def filled_form_def)

theorem write_success_schedules_one_refresh_witness:
  "deployment filled_form = Some sample_deployment \<and>
   timers (snd (handleSubmit backend_up (InteractTab_props sample_deployment transfer_func True)
                  filled_form)) = [(3150, CallLoadHistory 7)] \<and>
   timers (snd (handleSubmit backend_up (InteractTab_props sample_deployment transfer_func False)
                  filled_form)) = [] \<and>
   history (the (run_timer backend_up 0
     (snd (handleSubmit backend_up (InteractTab_props sample_deployment transfer_func True)
             filled_form) \<lparr>clock := 3150\<rparr>))) = [JStr ''transfer'']"
proof -
  have dep: "deployment filled_form = Some sample_deployment"
    by (simp add: filled_form_def)
  have reply: "fetchJson (history_reply backend_up (ident sample_deployment)) = Inr [JStr ''transfer'']"
    by (simp add: fetchJson_def backend_up_def)
  note w = write_success_schedules_one_refresh [OF dep, where w = True and env = backend_up
      and f = transfer_func and i = 0 and h = "[JStr ''transfer'']"
      and ?st2.0 = "snd (handleSubmit backend_up (InteractTab_props sample_deployment transfer_func True)
             filled_form) \<lparr>clock := 3150\<rparr>"
      and ?st3.0 = "the (run_timer backend_up 0
        (snd (handleSubmit backend_up (InteractTab_props sample_deployment transfer_func True)
             filled_form) \<lparr>clock := 3150\<rparr>))"]
  note r = write_success_schedules_one_refresh [OF dep, where w = False and env = backend_up
      and f = transfer_func]
  have t: "timers (snd (handleSubmit backend_up (InteractTab_props sample_deployment transfer_func True)
                  filled_form)) = [(3150, CallLoadHistory 7)]"
    using w by (simp add: submit_transfer)
  have c: "clock (snd (handleSubmit backend_up (InteractTab_props sample_deployment transfer_func True)
                  filled_form)) = 1150"
    by (simp add: submit_transfer)
  have "history (the (run_timer backend_up 0
     (snd (handleSubmit backend_up (InteractTab_props sample_deployment transfer_func True)
             filled_form) \<lparr>clock := 3150\<rparr>))) = [JStr ''transfer'']"
    using w reply unfolding refresh_after_transfer c
    by (simp add: sample_deployment_def)
  moreover have "timers (snd (handleSubmit backend_up
       (InteractTab_props sample_deployment transfer_func False) filled_form)) = []"
    using r by (simp add: filled_form_def)
  ultimately show ?thesis
    using dep t by simp
qed

section \<open>Properties of the failures of the collaborator\<close>

lemma postJson_rejected: "postJson (Inl e) = Inl e"
  by (simp add: postJson_def)

lemma postJson_not_ok:
  "\<not> ok response \<Longrightarrow> text_result response = Inr body \<Longrightarrow>
   postJson (Inr response) =
     Inl (ErrorObj (if body = [] then ''API error: '' @ string_of_nat (status response) else body))"
  by (simp add: postJson_def)

lemma string_of_nat_500: "string_of_nat 500 = ''500''"
  by (simp add: string_of_nat.simps)

text \<open>
  Claim C8.  \<open>handleSubmit\<close> always returns: nothing thrown inside it escapes.  When the
  send or the call collaborator throws, the result is a failure whose message is the
  message of the thrown \<open>Error\<close>, or \<open>Unknown error\<close> for a thrown value that is not an
  \<open>Error\<close>.  The collaborator throws the rejection of \<open>fetch\<close> as it is, and for a
  response that is not ok an \<open>Error\<close> whose message is the body text, or \<open>API error:\<close>
  and the status when the body is empty.
\<close>

theorem collaborator_failure_becomes_Failure:
  "fst (handleSubmit env props st) = Inr () \<and>
   (parseParams (inputs (func props)) (params st) = Inr ps \<and> isWrite props \<and>
    selectedWallet st \<noteq> [] \<and>
    postJson (send_reply env (deploymentId props)
       \<lparr>function_name = func_name (func props), request_params = ps,
        wallet_name = selectedWallet st, request_value = or_undefined (value_text st)\<rparr>) = Inl err
      \<longrightarrow> result (snd (handleSubmit env props st)) =
            Some \<lparr>success = False, txHash = None,
                  error = Some (case err of ErrorObj message \<Rightarrow> message
                                          | NonError \<Rightarrow> ''Unknown error''),
                  data = None\<rparr>) \<and>
   (parseParams (inputs (func props)) (params st) = Inr ps \<and> \<not> isWrite props \<and>
    postJson (call_reply env (deploymentId props)
       \<lparr>function_name = func_name (func props), request_params = ps\<rparr>) = Inl err
      \<longrightarrow> result (snd (handleSubmit env props st)) =
            Some \<lparr>success = False, txHash = None,
                  error = Some (case err of ErrorObj message \<Rightarrow> message
                                          | NonError \<Rightarrow> ''Unknown error''),
                  data = None\<rparr>) \<and>
   postJson (Inl rejection) = (Inl rejection :: thrown + SendResponse) \<and>
   (\<not> ok response \<and> text_result response = Inr body
      \<longrightarrow> postJson (Inr response) =
            (Inl (ErrorObj (if body = [] then ''API error: '' @ string_of_nat (status response)
                            else body)) :: thrown + SendResponse))"
proof (intro conjI impI)
  show "fst (handleSubmit env props st) = Inr ()"
    by (rule handleSubmit_returns)
next
  assume "parseParams (inputs (func props)) (params st) = Inr ps \<and> isWrite props \<and>
    selectedWallet st \<noteq> [] \<and>
    postJson (send_reply env (deploymentId props)
       \<lparr>function_name = func_name (func props), request_params = ps,
        wallet_name = selectedWallet st, request_value = or_undefined (value_text st)\<rparr>) = Inl err"
  then show "result (snd (handleSubmit env props st)) =
            Some \<lparr>success = False, txHash = None,
                  error = Some (case err of ErrorObj message \<Rightarrow> message
                                          | NonError \<Rightarrow> ''Unknown error''),
                  data = None\<rparr>"
    using handleSubmit_send_fails [of props st ps _ env err] by simp
next
  assume "parseParams (inputs (func props)) (params st) = Inr ps \<and> \<not> isWrite props \<and>
    postJson (call_reply env (deploymentId props)
       \<lparr>function_name = func_name (func props), request_params = ps\<rparr>) = Inl err"
  then show "result (snd (handleSubmit env props st)) =
            Some \<lparr>success = False, txHash = None,
                  error = Some (case err of ErrorObj message \<Rightarrow> message
                                          | NonError \<Rightarrow> ''Unknown error''),
                  data = None\<rparr>"
    using handleSubmit_call_fails [of props st ps _ env err] by simp
next
  show "postJson (Inl rejection) = (Inl rejection :: thrown + SendResponse)"
    by (rule postJson_rejected)
next
  assume "\<not> ok response \<and> text_result response = Inr body"
  then show "postJson (Inr response) =
            (Inl (ErrorObj (if body = [] then ''API error: '' @ string_of_nat (status response)
                            else body)) :: thrown + SendResponse)"
    using postJson_not_ok [of response body] by simp
qed

theorem collaborator_failure_becomes_Failure_witness:
  "result (snd (handleSubmit backend_500
      (InteractTab_props sample_deployment transfer_func True) filled_form))
     = Some \<lparr>success = False, txHash = None, error = Some ''API error: 500'', data = None\<rparr> \<and>
   result (snd (handleSubmit backend_aborted
      (InteractTab_props sample_deployment transfer_func True) filled_form))
     = Some \<lparr>success = False, txHash = None, error = Some ''Unknown error'', data = None\<rparr> \<and>
   result (snd (handleSubmit backend_down
      (InteractTab_props sample_deployment transfer_func False) filled_form))
     = Some \<lparr>success = False, txHash = None, error = Some ''Failed to fetch'', data = None\<rparr> \<and>
   postJson (Inr \<lparr>ok = False, status = 400, text_result = Inr ''execution reverted'',
                   json_result = Inl NonError\<rparr>)
     = (Inl (ErrorObj ''execution reverted'') :: thrown + SendResponse)"
proof -
  have p: "parseParams (inputs (func (InteractTab_props sample_deployment transfer_func b)))
             (params filled_form) = Inr [JStr ''0xabc'', JStr ''5'']" for b
    using parseParams_filled_form by (simp add: InteractTab_props_def)
  have s: "postJson (send_reply backend_500
             (deploymentId (InteractTab_props sample_deployment transfer_func True))
             \<lparr>function_name = func_name (func (InteractTab_props sample_deployment transfer_func True)),
              request_params = [JStr ''0xabc'', JStr ''5''],
              wallet_name = selectedWallet filled_form,
              request_value = or_undefined (value_text filled_form)\<rparr>)
           = Inl (ErrorObj ''API error: 500'')"
    by (simp add: backend_500_def postJson_def string_of_nat_500)
  have n: "postJson (send_reply backend_aborted
             (deploymentId (InteractTab_props sample_deployment transfer_func True))
             \<lparr>function_name = func_name (func (InteractTab_props sample_deployment transfer_func True)),
              request_params = [JStr ''0xabc'', JStr ''5''],
              wallet_name = selectedWallet filled_form,
              request_value = or_undefined (value_text filled_form)\<rparr>)
           = Inl NonError"
    by (simp add: backend_aborted_def postJson_def)
  have c: "postJson (call_reply backend_down
             (deploymentId (InteractTab_props sample_deployment transfer_func False))
             \<lparr>function_name = func_name (func (InteractTab_props sample_deployment transfer_func False)),
              request_params = [JStr ''0xabc'', JStr ''5'']\<rparr>)
           = Inl (ErrorObj ''Failed to fetch'')"
    by (simp add: backend_down_def postJson_def)
  have w: "isWrite (InteractTab_props sample_deployment transfer_func True)"
      "\<not> isWrite (InteractTab_props sample_deployment transfer_func False)"
      "selectedWallet filled_form \<noteq> []"
    by (simp_all add: InteractTab_props_def filled_form_def)
  note a = collaborator_failure_becomes_Failure
    [where env = backend_500 and props = "InteractTab_props sample_deployment transfer_func True"
       and st = filled_form and ps = "[JStr ''0xabc'', JStr ''5'']"
       and err = "ErrorObj ''API error: 500''"]
  note u = collaborator_failure_becomes_Failure
    [where env = backend_aborted and props = "InteractTab_props sample_deployment transfer_func True"
       and st = filled_form and ps = "[JStr ''0xabc'', JStr ''5'']"
       and err = NonError]
  note b = collaborator_failure_becomes_Failure
    [where env = backend_down and props = "InteractTab_props sample_deployment transfer_func False"
       and st = filled_form and ps = "[JStr ''0xabc'', JStr ''5'']"
       and err = "ErrorObj ''Failed to fetch''"
       and response = "\<lparr>ok = False, status = 400, text_result = Inr ''execution reverted'',
                   json_result = Inl NonError\<rparr>"
       and body = "''execution reverted''"]
  from a p s w have "result (snd (handleSubmit backend_500
      (InteractTab_props sample_deployment transfer_func True) filled_form))
     = Some \<lparr>success = False, txHash = None, error = Some ''API error: 500'', data = None\<rparr>"
    by simp
  moreover from u p n w have "result (snd (handleSubmit backend_aborted
      (InteractTab_props sample_deployment transfer_func True) filled_form))
     = Some \<lparr>success = False, txHash = None, error = Some ''Unknown error'', data = None\<rparr>"
    by simp
  moreover from b p c w have "result (snd (handleSubmit backend_down
      (InteractTab_props sample_deployment transfer_func False) filled_form))
     = Some \<lparr>success = False, txHash = None, error = Some ''Failed to fetch'', data = None\<rparr>"
    by simp
  moreover from b have "postJson (Inr \<lparr>ok = False, status = 400, text_result = Inr ''execution reverted'',
                   json_result = Inl NonError\<rparr>)
     = (Inl (ErrorObj ''execution reverted'') :: thrown + SendResponse)"
    by simp
  ultimately show ?thesis by simp
qed

section \<open>Properties of the value field of a request\<close>

lemma handleSubmit_send_requests:
  assumes "parseParams (inputs f) (params st) = Inr ps" and "selectedWallet st \<noteq> []"
  shows "requests (snd (handleSubmit env (InteractTab_props d f True) st)) =
        requests st @
          [PostSend (ident d)
             \<lparr>function_name = func_name f, request_params = ps, wallet_name = selectedWallet st,
              request_value = or_undefined (value_text st)\<rparr>]"
  using assms
  by (simp add: handleSubmit_defs InteractTab_props_def handleTxSent_def setTimeout_def Let_def
      split: sum.splits option.splits)

lemma handleDeploy_modal_requests:
  assumes "parseConstructorArgs (artifactDetails modal) (constructorArgs modal) = Inr args"
  shows "requests (snd (handleDeploy_modal env artifactName modal)) =
        requests modal @
          [PostDeploy
             \<lparr>artifact_name = artifactName, network_name = selectedNetwork modal,
              deploy_wallet_name = selectedWallet modal, constructor_args = args,
              deploy_value = or_undefined (value_text modal)\<rparr>]"
  using assms
  by (simp add: handleDeploy_defs split: sum.splits option.splits)

lemma handleDeploy_page_requests:
  assumes "parseConstructorArgs (artifactDetails page) (constructorArgs page) = Inr args"
  shows "requests (snd (handleDeploy_page env page)) =
        requests page @
          [PostDeploy
             \<lparr>artifact_name = selectedArtifact page, network_name = selectedNetwork page,
              deploy_wallet_name = selectedWallet page, constructor_args = args,
              deploy_value = or_undefined (value_text page)\<rparr>]"
  using assms
  by (simp add: handleDeploy_defs split: sum.splits option.splits)

lemma parseConstructorArgs_token:
  "parseConstructorArgs (Some token_artifact) (map_of [(''supply'', ''1000'')]) = Inr [JStr ''1000'']"
  by (simp add: parseConstructorArgs_def token_artifact_def parseParam_def get_raw_def
      get_property_def startsWith_def endsWith_def)

text \<open>
  Claim C10.  The one request that a write submission sends, and the one that a deploy
  submission sends from the modal or from the page, has no \<open>value\<close> field when the value
  entered is the empty string, and carries the entered string unchanged otherwise.
\<close>

theorem empty_value_is_omitted:
  "(parseParams (inputs f) (params st) = Inr ps \<and> selectedWallet st \<noteq> [] \<longrightarrow>
      requests (snd (handleSubmit env (InteractTab_props d f True) st)) =
        requests st @
          [PostSend (ident d)
             \<lparr>function_name = func_name f, request_params = ps, wallet_name = selectedWallet st,
              request_value = (if value_text st = [] then None else Some (value_text st))\<rparr>]) \<and>
   (parseConstructorArgs (artifactDetails modal) (constructorArgs modal) = Inr args \<longrightarrow>
      requests (snd (handleDeploy_modal env artifactName modal)) =
        requests modal @
          [PostDeploy
             \<lparr>artifact_name = artifactName, network_name = selectedNetwork modal,
              deploy_wallet_name = selectedWallet modal, constructor_args = args,
              deploy_value = (if value_text modal = [] then None else Some (value_text modal))\<rparr>]) \<and>
   (parseConstructorArgs (artifactDetails page) (constructorArgs page) = Inr args' \<longrightarrow>
      requests (snd (handleDeploy_page env page)) =
        requests page @
          [PostDeploy
             \<lparr>artifact_name = selectedArtifact page, network_name = selectedNetwork page,
              deploy_wallet_name = selectedWallet page, constructor_args = args',
              deploy_value = (if value_text page = [] then None else Some (value_text page))\<rparr>])"
proof (intro conjI impI)
  assume "parseParams (inputs f) (params st) = Inr ps \<and> selectedWallet st \<noteq> []"
  then show "requests (snd (handleSubmit env (InteractTab_props d f True) st)) =
        requests st @
          [PostSend (ident d)
             \<lparr>function_name = func_name f, request_params = ps, wallet_name = selectedWallet st,
              request_value = (if value_text st = [] then None else Some (value_text st))\<rparr>]"
    using handleSubmit_send_requests [of f st ps env d] by (simp add: or_undefined_def)
next
  assume "parseConstructorArgs (artifactDetails modal) (constructorArgs modal) = Inr args"
  then show "requests (snd (handleDeploy_modal env artifactName modal)) =
        requests modal @
          [PostDeploy
             \<lparr>artifact_name = artifactName, network_name = selectedNetwork modal,
              deploy_wallet_name = selectedWallet modal, constructor_args = args,
              deploy_value = (if value_text modal = [] then None else Some (value_text modal))\<rparr>]"
    using handleDeploy_modal_requests [of modal args env artifactName]
    by (simp add: or_undefined_def)
next
  assume "parseConstructorArgs (artifactDetails page) (constructorArgs page) = Inr args'"
  then show "requests (snd (handleDeploy_page env page)) =
        requests page @
          [PostDeploy
             \<lparr>artifact_name = selectedArtifact page, network_name = selectedNetwork page,
              deploy_wallet_name = selectedWallet page, constructor_args = args',
              deploy_value = (if value_text page = [] then None else Some (value_text page))\<rparr>]"
    using handleDeploy_page_requests [of page args' env] by (simp add: or_undefined_def)
qed

theorem empty_value_is_omitted_witness:
  "requests (snd (handleSubmit backend_up
      (InteractTab_props sample_deployment transfer_func True) filled_form))
     = [PostSend 7 \<lparr>function_name = ''transfer'', request_params = [JStr ''0xabc'', JStr ''5''],
                    wallet_name = ''deployer'', request_value = None\<rparr>] \<and>
   requests (snd (handleDeploy_modal backend_up ''Token'' open_modal))
     = [PostDeploy \<lparr>artifact_name = ''Token'', network_name = ''anvil'',
                    deploy_wallet_name = ''deployer'', constructor_args = [JStr ''1000''],
                    deploy_value = None\<rparr>] \<and>
   requests (snd (handleDeploy_page backend_up open_page))
     = [PostDeploy \<lparr>artifact_name = ''Token'', network_name = ''anvil'',
                    deploy_wallet_name = ''deployer'', constructor_args = [JStr ''1000''],
                    deploy_value = Some ''1000000000000000000''\<rparr>]"
proof -
  have m: "parseConstructorArgs (artifactDetails open_modal) (constructorArgs open_modal)
             = Inr [JStr ''1000'']"
    using parseConstructorArgs_token by (simp add: open_modal_def)
  have g: "parseConstructorArgs (artifactDetails open_page) (constructorArgs open_page)
             = Inr [JStr ''1000'']"
    using parseConstructorArgs_token by (simp add: open_page_def)
  note t = empty_value_is_omitted
    [where f = transfer_func and st = filled_form and ps = "[JStr ''0xabc'', JStr ''5'']"
       and env = backend_up and d = sample_deployment
       and modal = open_modal and args = "[JStr ''1000'']" and artifactName = "''Token''"
       and page = open_page and args' = "[JStr ''1000'']"]
  from t parseParams_filled_form m g show ?thesis
    by (simp add: filled_form_def open_modal_def open_page_def sample_deployment_def
        transfer_func_def)
qed

end
